theory Spec2Isabelle
  imports Complex_Main "HOL-Library.Product_Lexorder" "HOL-Library.List_Lexorder"
    "HOL-Library.Char_ord" "HOL-Library.Sublist"
begin

section \<open>JavaScript numbers: \<open>Number(v)\<close> on a string and \<open>Number.isInteger\<close>\<close>

text \<open>
  \<open>server.js\<close> validates a path parameter with
  \<^verbatim>\<open>const isInt = (v) => Number.isInteger(Number(v));\<close>
  where \<open>v\<close> is always a string (an Express path parameter). \<open>Number\<close> on a string is
  the StringToNumber conversion of ECMAScript: surrounding white space is dropped, the
  empty string is \<open>0\<close>, a decimal literal (optional sign, optional fraction, optional
  exponent, or \<open>Infinity\<close>) or an unsigned binary, octal or hexadecimal literal is read,
  and everything else is \<open>NaN\<close>. The mathematical value of the literal is rounded to
  the nearest IEEE 754 double, ties to even.

  A double is modelled by the rational number it denotes; \<open>+0\<close> and \<open>-0\<close> are both
  \<open>Fin 0\<close> (they are equal under \<open><\<close> and both integers). In \<open>Inf b\<close> the flag says
  that the infinity is negative. Strings are lists of characters with code points below
  256, so the white space of the model is TAB, LF, VT, FF, CR, SPACE and NBSP.
\<close>

datatype double = NaN | Inf bool | Fin rat

function bitlen :: "int \<Rightarrow> int" where
  "bitlen n = (if n \<le> 0 then 0 else 1 + bitlen (n div 2))"
  by pat_completeness auto
termination
  by (relation "measure nat") auto

declare bitlen.simps [simp del]

definition floor_log2 :: "int \<Rightarrow> int \<Rightarrow> int" where
  \<comment> \<open>for \<open>p, q > 0\<close>: the \<open>e\<close> with \<open>2^e \<le> p / q < 2^(e + 1)\<close>\<close>
  "floor_log2 p q =
     (let d = bitlen p - bitlen q
      in if (if 0 \<le> d then q * 2 ^ nat d \<le> p else q \<le> p * 2 ^ nat (- d)) then d else d - 1)"

definition round_half_even :: "int \<Rightarrow> int \<Rightarrow> int" where
  \<comment> \<open>\<open>a / b\<close> rounded to the nearest integer, ties to the even one\<close>
  "round_half_even a b =
     (let n = a div b; r = a mod b
      in if 2 * r < b then n else if b < 2 * r then n + 1 else if even n then n else n + 1)"

definition to_double :: "bool \<Rightarrow> int \<Rightarrow> int \<Rightarrow> double" where
  \<comment> \<open>the double nearest to \<open>\<plusminus> p / q\<close>: 53 significant bits, exponents from -1022 to 1023\<close>
  "to_double neg p q =
     (if p \<le> 0 then Fin 0
      else let e = floor_log2 p q in
        if 1023 < e then Inf neg
        else let u = max e (- 1022) - 52;
                 n = (if 0 \<le> u then round_half_even p (q * 2 ^ nat u)
                      else round_half_even (p * 2 ^ nat (- u)) q)
             in if e = 1023 \<and> n = 2 ^ 53 then Inf neg
                else let x = (if 0 \<le> u then of_int (n * 2 ^ nat u)
                              else of_int n / of_int (2 ^ nat (- u)))
                     in Fin (if neg then - x else x))"

definition StrWhiteSpaceChar :: "char \<Rightarrow> bool" where
  "StrWhiteSpaceChar c = (of_char c \<in> {9, 10, 11, 12, 13, 32, 160 :: int})"

definition trim_ws :: "string \<Rightarrow> string" where
  "trim_ws s = rev (dropWhile StrWhiteSpaceChar (rev (dropWhile StrWhiteSpaceChar s)))"

definition is_digit :: "char \<Rightarrow> bool" where
  "is_digit c = (48 \<le> (of_char c :: int) \<and> (of_char c :: int) \<le> 57)"

definition digit_in_radix :: "int \<Rightarrow> char \<Rightarrow> int option" where
  "digit_in_radix r c =
     (let n = (of_char c :: int);
          v = (if 48 \<le> n \<and> n \<le> 57 then Some (n - 48)
               else if 97 \<le> n \<and> n \<le> 102 then Some (n - 87)
               else if 65 \<le> n \<and> n \<le> 70 then Some (n - 55)
               else None)
      in case v of None \<Rightarrow> None | Some d \<Rightarrow> if d < r then Some d else None)"

definition radix_value :: "int \<Rightarrow> string \<Rightarrow> int option" where
  \<comment> \<open>a non-empty run of digits of radix \<open>r\<close>, read most significant digit first\<close>
  "radix_value r s =
     (if s \<noteq> [] \<and> list_all (\<lambda>c. digit_in_radix r c \<noteq> None) s
      then Some (foldl (\<lambda>a c. a * r + the (digit_in_radix r c)) 0 s)
      else None)"

definition ExponentPart :: "string \<Rightarrow> int option" where
  \<comment> \<open>what follows the mantissa: nothing, or \<open>e\<close>/\<open>E\<close> and a signed integer\<close>
  "ExponentPart s =
     (case s of
        [] \<Rightarrow> Some 0
      | c # t \<Rightarrow>
          if c = CHR ''e'' \<or> c = CHR ''E'' then
            (case t of
               [] \<Rightarrow> None
             | d # t' \<Rightarrow>
                 if d = CHR ''+'' then radix_value 10 t'
                 else if d = CHR ''-'' then map_option uminus (radix_value 10 t')
                 else radix_value 10 t)
          else None)"

definition decimal_to_double :: "bool \<Rightarrow> int \<Rightarrow> int \<Rightarrow> double" where
  \<comment> \<open>the double nearest to \<open>\<plusminus> m * 10^k\<close>\<close>
  "decimal_to_double neg m k =
     (if 0 \<le> k then to_double neg (m * 10 ^ nat k) 1 else to_double neg m (10 ^ nat (- k)))"

definition StrUnsignedDecimalLiteral :: "bool \<Rightarrow> string \<Rightarrow> double option" where
  "StrUnsignedDecimalLiteral neg s =
     (if s = ''Infinity'' then Some (Inf neg)
      else
        let ip = takeWhile is_digit s;
            r = dropWhile is_digit s;
            dot = (case r of [] \<Rightarrow> False | c # t \<Rightarrow> c = CHR ''.'');
            fp = (if dot then takeWhile is_digit (tl r) else []);
            r' = (if dot then dropWhile is_digit (tl r) else r)
        in if ip = [] \<and> fp = [] then None
           else case ExponentPart r' of
                  None \<Rightarrow> None
                | Some e \<Rightarrow>
                    Some (decimal_to_double neg (the (radix_value 10 (ip @ fp)))
                            (e - int (length fp))))"

definition StrDecimalLiteral :: "string \<Rightarrow> double option" where
  "StrDecimalLiteral s =
     (case s of
        [] \<Rightarrow> None
      | c # t \<Rightarrow>
          if c = CHR ''+'' then StrUnsignedDecimalLiteral False t
          else if c = CHR ''-'' then StrUnsignedDecimalLiteral True t
          else StrUnsignedDecimalLiteral False s)"

definition NonDecimalIntegerLiteral :: "string \<Rightarrow> double option" where
  "NonDecimalIntegerLiteral s =
     (case s of
        z # x # t \<Rightarrow>
          if z \<noteq> CHR ''0'' then None
          else if x = CHR ''x'' \<or> x = CHR ''X''
            then map_option (\<lambda>n. to_double False n 1) (radix_value 16 t)
          else if x = CHR ''o'' \<or> x = CHR ''O''
            then map_option (\<lambda>n. to_double False n 1) (radix_value 8 t)
          else if x = CHR ''b'' \<or> x = CHR ''B''
            then map_option (\<lambda>n. to_double False n 1) (radix_value 2 t)
          else None
      | _ \<Rightarrow> None)"

definition StringToNumber :: "string \<Rightarrow> double" where
  "StringToNumber s =
     (let t = trim_ws s
      in if t = [] then Fin 0
         else case StrDecimalLiteral t of
                Some d \<Rightarrow> d
              | None \<Rightarrow> (case NonDecimalIntegerLiteral t of Some d \<Rightarrow> d | None \<Rightarrow> NaN))"

definition Number :: "string \<Rightarrow> double" where
  "Number v = StringToNumber v"

definition Number_isInteger :: "double \<Rightarrow> bool" where
  "Number_isInteger d = (case d of Fin x \<Rightarrow> of_int \<lfloor>x\<rfloor> = x | _ \<Rightarrow> False)"

definition js_less :: "double \<Rightarrow> double \<Rightarrow> bool" where
  \<comment> \<open>the operator \<open><\<close> on two numbers; every comparison with \<open>NaN\<close> is false\<close>
  "js_less a b =
     (case (a, b) of
        (Fin x, Fin y) \<Rightarrow> x < y
      | (Fin x, Inf nb) \<Rightarrow> \<not> nb
      | (Inf na, Fin y) \<Rightarrow> na
      | (Inf na, Inf nb) \<Rightarrow> na \<and> \<not> nb
      | _ \<Rightarrow> False)"

text \<open>\<^verbatim>\<open>const isInt = (v) => Number.isInteger(Number(v));\<close>\<close>

definition isInt :: "string \<Rightarrow> bool" where
  "isInt v = Number_isInteger (Number v)"


section \<open>Values, rows and responses\<close>

text \<open>
  A value of the data store is \<open>NULL\<close>, an \<open>INTEGER\<close>, a \<open>REAL\<close> (an IEEE double, never
  \<open>NaN\<close>) or \<open>TEXT\<close>. A row, as the \<open>sqlite3\<close> binding hands it to the callback and as
  \<open>res.json\<close> prints it, is an object: the selected column names with their values, in
  column order.
\<close>

datatype sqlval = SNull | SInt int | SReal double | SText string

type_synonym row = "(string \<times> sqlval) list"

definition col :: "row \<Rightarrow> string \<Rightarrow> sqlval" where
  \<comment> \<open>the value under a column name\<close>
  "col r c = (case map_of r c of None \<Rightarrow> SNull | Some v \<Rightarrow> v)"

datatype body = ErrorJson string | ArrayJson "row list" | ObjectJson row

datatype response = Response nat body

fun status :: "response \<Rightarrow> nat" where
  "status (Response s b) = s"

fun body_of :: "response \<Rightarrow> body" where
  "body_of (Response s b) = b"

text \<open>
  \<^verbatim>\<open>function notFound(res, msg = "No data found.") { return res.status(404).json({ error: msg }); }\<close>
  The optional argument is an \<open>option\<close>; \<open>None\<close> is the call with one argument.
\<close>

definition notFound :: "string option \<Rightarrow> response" where
  "notFound msg =
     Response 404 (ErrorJson (case msg of None \<Rightarrow> ''No data found.'' | Some m \<Rightarrow> m))"

text \<open>\<^verbatim>\<open>function badReq(res, msg) { return res.status(400).json({ error: msg }); }\<close>\<close>

definition badReq :: "string \<Rightarrow> response" where
  "badReq msg = Response 400 (ErrorJson msg)"

text \<open>
  A handler either answers at once or hands one statement to the data store: the SQL
  text, the list of bind parameters and the callback that turns the store's reply into
  the response. \<open>db.all\<close> replies with an error message or the list of rows, \<open>db.get\<close>
  with an error message or the first row (\<open>undefined\<close>, here \<open>None\<close>, when there is none).
\<close>

datatype action =
    Done response
  | DbAll string "string list" "string + row list \<Rightarrow> response"
  | DbGet string "string list" "string + row option \<Rightarrow> response"

text \<open>
  The two callback shapes of \<open>server.js\<close>:
  \<^verbatim>\<open>(err, rows) => { if (err) return res.status(500).json({ error: err.message });
                    if (!rows?.length) return notFound(res, msg);
                    res.json(rows); }\<close>
  and the same with \<open>row\<close> and \<open>if (!row)\<close>. \<open>res.json\<close> without \<open>res.status\<close> answers 200.
\<close>

definition rows_callback :: "string option \<Rightarrow> string + row list \<Rightarrow> response" where
  "rows_callback msg reply =
     (case reply of
        Inl err \<Rightarrow> Response 500 (ErrorJson err)
      | Inr rows \<Rightarrow> if rows = [] then notFound msg else Response 200 (ArrayJson rows))"

definition row_callback :: "string option \<Rightarrow> string + row option \<Rightarrow> response" where
  "row_callback msg reply =
     (case reply of
        Inl err \<Rightarrow> Response 500 (ErrorJson err)
      | Inr None \<Rightarrow> notFound msg
      | Inr (Some r) \<Rightarrow> Response 200 (ObjectJson r))"


section \<open>The statements of \<open>server.js\<close>\<close>

text \<open>
  Each statement is the literal text of the source, line breaks and indentation of the
  template literals included.
\<close>

definition nl :: string where
  "nl = [CHR 0x0A]"

definition apostrophe :: string where
  "apostrophe = [CHR 0x27]"

definition sql_api_circuits :: string where
  "sql_api_circuits =
     ''SELECT * FROM circuits;''"

definition sql_api_circuits_ref :: string where
  "sql_api_circuits_ref =
     ''SELECT * FROM circuits WHERE circuitRef = ?;''"

definition sql_api_circuits_season :: string where
  "sql_api_circuits_season =
     nl @
     ''    SELECT c.*'' @ nl @
     ''    FROM circuits c'' @ nl @
     ''    JOIN races r ON c.circuitId = r.circuitId'' @ nl @
     ''    WHERE r.year = ?'' @ nl @
     ''    ORDER BY r.round ASC;'' @ nl @
     ''  ''"

definition sql_api_constructors :: string where
  "sql_api_constructors =
     ''SELECT * FROM constructors;''"

definition sql_api_constructors_ref :: string where
  "sql_api_constructors_ref =
     ''SELECT * FROM constructors WHERE constructorRef = ?;''"

definition sql_api_drivers :: string where
  "sql_api_drivers =
     ''SELECT * FROM drivers;''"

definition sql_api_drivers_ref :: string where
  "sql_api_drivers_ref =
     ''SELECT * FROM drivers WHERE driverRef = ?;''"

definition sql_api_drivers_search :: string where
  "sql_api_drivers_search =
     nl @
     ''    SELECT * FROM drivers'' @ nl @
     ''    WHERE LOWER(surname) LIKE LOWER(?) || '' @ apostrophe @ ''%'' @ apostrophe @ nl @
     ''    ORDER BY surname ASC, forename ASC;'' @ nl @
     ''  ''"

definition sql_api_drivers_race :: string where
  "sql_api_drivers_race =
     nl @
     ''    SELECT d.*'' @ nl @
     ''    FROM results r'' @ nl @
     ''    JOIN drivers d ON d.driverId = r.driverId'' @ nl @
     ''    WHERE r.raceId = ?'' @ nl @
     ''    ORDER BY r.grid ASC;'' @ nl @
     ''  ''"

definition sql_api_races_id :: string where
  "sql_api_races_id =
     nl @
     ''    SELECT'' @ nl @
     ''      r.raceId, r.year, r.round, r.name, r.date, r.time, r.url,'' @ nl @
     ''      c.name AS circuitName, c.location, c.country'' @ nl @
     ''    FROM races r'' @ nl @
     ''    JOIN circuits c ON c.circuitId = r.circuitId'' @ nl @
     ''    WHERE r.raceId = ?;'' @ nl @
     ''  ''"

definition sql_api_races_season :: string where
  "sql_api_races_season =
     ''SELECT * FROM races WHERE year = ? ORDER BY round ASC;''"

definition sql_api_races_season_round :: string where
  "sql_api_races_season_round =
     ''SELECT * FROM races WHERE year = ? AND round = ?;''"

definition sql_api_races_circuits :: string where
  "sql_api_races_circuits =
     nl @
     ''    SELECT r.*'' @ nl @
     ''    FROM races r'' @ nl @
     ''    JOIN circuits c ON c.circuitId = r.circuitId'' @ nl @
     ''    WHERE c.circuitRef = ?'' @ nl @
     ''    ORDER BY r.year ASC, r.round ASC;'' @ nl @
     ''  ''"

definition sql_api_races_circuits_season :: string where
  "sql_api_races_circuits_season =
     nl @
     ''    SELECT r.*'' @ nl @
     ''    FROM races r'' @ nl @
     ''    JOIN circuits c ON c.circuitId = r.circuitId'' @ nl @
     ''    WHERE c.circuitRef = ?'' @ nl @
     ''      AND r.year BETWEEN ? AND ?'' @ nl @
     ''    ORDER BY r.year ASC, r.round ASC;'' @ nl @
     ''  ''"

definition sql_api_results :: string where
  "sql_api_results =
     nl @
     ''    SELECT'' @ nl @
     ''      r.resultId, r.position, r.positionText, r.points, r.grid, r.laps, r.statusId,'' @ nl @
     ''      -- race'' @ nl @
     ''      ra.name   AS race_name,   ra.round AS race_round, ra.year AS race_year, ra.date AS race_date,'' @ nl @
     ''      -- driver'' @ nl @
     ''      d.driverRef AS driver_ref, d.code AS driver_code, d.forename AS driver_forename, d.surname AS driver_surname,'' @ nl @
     ''      -- constructor'' @ nl @
     ''      c.name AS constructor_name, c.constructorRef AS constructor_ref, c.nationality AS constructor_nationality'' @ nl @
     ''    FROM results r'' @ nl @
     ''    JOIN races ra       ON ra.raceId = r.raceId'' @ nl @
     ''    JOIN drivers d      ON d.driverId = r.driverId'' @ nl @
     ''    JOIN constructors c ON c.constructorId = r.constructorId'' @ nl @
     ''    WHERE r.raceId = ?'' @ nl @
     ''    ORDER BY r.grid ASC;'' @ nl @
     ''  ''"

definition sql_api_results_driver :: string where
  "sql_api_results_driver =
     nl @
     ''    SELECT'' @ nl @
     ''      r.resultId, r.position, r.points, r.grid, r.laps, r.statusId,'' @ nl @
     ''      ra.raceId, ra.year, ra.round, ra.name, ra.date,'' @ nl @
     ''      c.name AS constructor_name, c.constructorRef AS constructor_ref'' @ nl @
     ''    FROM results r'' @ nl @
     ''    JOIN drivers d      ON d.driverId = r.driverId'' @ nl @
     ''    JOIN races ra       ON ra.raceId = r.raceId'' @ nl @
     ''    JOIN constructors c ON c.constructorId = r.constructorId'' @ nl @
     ''    WHERE d.driverRef = ?'' @ nl @
     ''    ORDER BY ra.year ASC, ra.round ASC;'' @ nl @
     ''  ''"

definition sql_api_results_drivers_seasons :: string where
  "sql_api_results_drivers_seasons =
     nl @
     ''    SELECT'' @ nl @
     ''      r.resultId, r.position, r.points, r.grid, r.laps, r.statusId,'' @ nl @
     ''      ra.raceId, ra.year, ra.round, ra.name, ra.date,'' @ nl @
     ''      c.name AS constructor_name, c.constructorRef AS constructor_ref'' @ nl @
     ''    FROM results r'' @ nl @
     ''    JOIN drivers d      ON d.driverId = r.driverId'' @ nl @
     ''    JOIN races ra       ON ra.raceId = r.raceId'' @ nl @
     ''    JOIN constructors c ON c.constructorId = r.constructorId'' @ nl @
     ''    WHERE d.driverRef = ?'' @ nl @
     ''      AND ra.year BETWEEN ? AND ?'' @ nl @
     ''    ORDER BY ra.year ASC, ra.round ASC;'' @ nl @
     ''  ''"

definition sql_api_qualifying :: string where
  "sql_api_qualifying =
     nl @
     ''    SELECT'' @ nl @
     ''      q.qualifyId, q.position, q.q1, q.q2, q.q3,'' @ nl @
     ''      ra.name AS race_name, ra.round AS race_round, ra.year AS race_year, ra.date AS race_date,'' @ nl @
     ''      d.driverRef AS driver_ref, d.code AS driver_code, d.forename AS driver_forename, d.surname AS driver_surname,'' @ nl @
     ''      c.name AS constructor_name, c.constructorRef AS constructor_ref, c.nationality AS constructor_nationality'' @ nl @
     ''    FROM qualifying q'' @ nl @
     ''    JOIN races ra       ON ra.raceId = q.raceId'' @ nl @
     ''    JOIN drivers d      ON d.driverId = q.driverId'' @ nl @
     ''    JOIN constructors c ON c.constructorId = q.constructorId'' @ nl @
     ''    WHERE q.raceId = ?'' @ nl @
     ''    ORDER BY q.position ASC;'' @ nl @
     ''  ''"

definition sql_api_standings_drivers :: string where
  "sql_api_standings_drivers =
     nl @
     ''    SELECT'' @ nl @
     ''      ds.position, ds.points, ds.wins,'' @ nl @
     ''      d.driverRef AS driver_ref, d.code AS driver_code, d.forename AS driver_forename, d.surname AS driver_surname'' @ nl @
     ''    FROM driverStandings ds'' @ nl @
     ''    JOIN drivers d ON d.driverId = ds.driverId'' @ nl @
     ''    WHERE ds.raceId = ?'' @ nl @
     ''    ORDER BY ds.position ASC;'' @ nl @
     ''  ''"

definition sql_api_standings_constructors :: string where
  "sql_api_standings_constructors =
     nl @
     ''    SELECT'' @ nl @
     ''      cs.position, cs.points, cs.wins,'' @ nl @
     ''      c.name AS constructor_name, c.constructorRef AS constructor_ref, c.nationality AS constructor_nationality'' @ nl @
     ''    FROM constructorStandings cs'' @ nl @
     ''    JOIN constructors c ON c.constructorId = cs.constructorId'' @ nl @
     ''    WHERE cs.raceId = ?'' @ nl @
     ''    ORDER BY cs.position ASC;'' @ nl @
     ''  ''"



section \<open>The twenty handlers\<close>

text \<open>Each handler takes its path parameters (\<open>req.params\<close>), which are strings.\<close>

definition api_circuits :: action where
  "api_circuits = DbAll sql_api_circuits [] (rows_callback None)"

definition api_circuits_ref :: "string \<Rightarrow> action" where
  "api_circuits_ref circuitRef = DbGet sql_api_circuits_ref [circuitRef] (row_callback None)"

definition api_circuits_season :: "string \<Rightarrow> action" where
  "api_circuits_season year =
     DbAll sql_api_circuits_season [year]
       (rows_callback (Some (''No circuits found for season '' @ year @ ''.'')))"

definition api_constructors :: action where
  "api_constructors = DbAll sql_api_constructors [] (rows_callback None)"

definition api_constructors_ref :: "string \<Rightarrow> action" where
  "api_constructors_ref ref =
     DbGet sql_api_constructors_ref [ref]
       (row_callback (Some (''No constructor found with ref '' @ apostrophe @ ref @ apostrophe @ ''.'')))"

definition api_drivers :: action where
  "api_drivers = DbAll sql_api_drivers [] (rows_callback None)"

definition api_drivers_ref :: "string \<Rightarrow> action" where
  "api_drivers_ref ref =
     DbGet sql_api_drivers_ref [ref]
       (row_callback (Some (''No driver found with ref '' @ apostrophe @ ref @ apostrophe @ ''.'')))"

definition api_drivers_search :: "string \<Rightarrow> action" where
  "api_drivers_search substring =
     DbAll sql_api_drivers_search [substring]
       (rows_callback (Some (''No drivers with surname starting '' @ apostrophe @ substring @ apostrophe @ ''.'')))"

definition api_drivers_race :: "string \<Rightarrow> action" where
  "api_drivers_race raceId =
     (if \<not> isInt raceId then Done (badReq ''raceId must be an integer.'')
      else DbAll sql_api_drivers_race [raceId]
             (rows_callback (Some (''No drivers found for raceId '' @ raceId @ ''.''))))"

definition api_races_id :: "string \<Rightarrow> action" where
  "api_races_id raceId =
     (if \<not> isInt raceId then Done (badReq ''raceId must be an integer.'')
      else DbGet sql_api_races_id [raceId]
             (row_callback (Some (''No race found with id '' @ raceId @ ''.''))))"

definition api_races_season :: "string \<Rightarrow> action" where
  "api_races_season year =
     (if \<not> isInt year then Done (badReq ''Year must be an integer.'')
      else DbAll sql_api_races_season [year]
             (rows_callback (Some (''No races for season '' @ year @ ''.''))))"

definition api_races_season_round :: "string \<Rightarrow> string \<Rightarrow> action" where
  "api_races_season_round year round' =
     (if \<not> isInt year \<or> \<not> isInt round' then Done (badReq ''Year and round must be integers.'')
      else DbGet sql_api_races_season_round [year, round']
             (row_callback (Some (''No race for season '' @ year @ '', round '' @ round' @ ''.''))))"

definition api_races_circuits :: "string \<Rightarrow> action" where
  "api_races_circuits ref =
     DbAll sql_api_races_circuits [ref]
       (rows_callback (Some (''No races for circuit '' @ apostrophe @ ref @ apostrophe @ ''.'')))"

definition api_races_circuits_season :: "string \<Rightarrow> string \<Rightarrow> string \<Rightarrow> action" where
  "api_races_circuits_season ref start end =
     (if \<not> isInt start \<or> \<not> isInt end then Done (badReq ''start and end must be integers.'')
      else if js_less (Number end) (Number start)
        then Done (badReq ''end year must be >= start year.'')
      else DbAll sql_api_races_circuits_season [ref, start, end]
             (rows_callback (Some (''No races for '' @ apostrophe @ ref @ apostrophe
                @ '' between '' @ start @ '' and '' @ end @ ''.''))))"

definition api_results :: "string \<Rightarrow> action" where
  "api_results raceId =
     (if \<not> isInt raceId then Done (badReq ''raceId must be an integer.'')
      else DbAll sql_api_results [raceId]
             (rows_callback (Some (''No results for raceId '' @ raceId @ ''.''))))"

definition api_results_driver :: "string \<Rightarrow> action" where
  "api_results_driver ref =
     DbAll sql_api_results_driver [ref]
       (rows_callback (Some (''No results for driver '' @ apostrophe @ ref @ apostrophe @ ''.'')))"

definition api_results_drivers_seasons :: "string \<Rightarrow> string \<Rightarrow> string \<Rightarrow> action" where
  "api_results_drivers_seasons ref start end =
     (if \<not> isInt start \<or> \<not> isInt end then Done (badReq ''start and end must be integers.'')
      else if js_less (Number end) (Number start)
        then Done (badReq ''end year must be >= start year.'')
      else DbAll sql_api_results_drivers_seasons [ref, start, end]
             (rows_callback (Some (''No results for '' @ apostrophe @ ref @ apostrophe
                @ '' between '' @ start @ '' and '' @ end @ ''.''))))"

definition api_qualifying :: "string \<Rightarrow> action" where
  "api_qualifying raceId =
     (if \<not> isInt raceId then Done (badReq ''raceId must be an integer.'')
      else DbAll sql_api_qualifying [raceId]
             (rows_callback (Some (''No qualifying for raceId '' @ raceId @ ''.''))))"

definition api_standings_drivers :: "string \<Rightarrow> action" where
  "api_standings_drivers raceId =
     (if \<not> isInt raceId then Done (badReq ''raceId must be an integer.'')
      else DbAll sql_api_standings_drivers [raceId]
             (rows_callback (Some (''No driver standings for raceId '' @ raceId @ ''.''))))"

definition api_standings_constructors :: "string \<Rightarrow> action" where
  "api_standings_constructors raceId =
     (if \<not> isInt raceId then Done (badReq ''raceId must be an integer.'')
      else DbAll sql_api_standings_constructors [raceId]
             (rows_callback (Some (''No constructor standings for raceId '' @ raceId @ ''.''))))"

text \<open>
  The route table: a request to one of the twenty operations, with the path parameters
  the router captured, in the order of the \<open>app.get\<close> calls.
\<close>

datatype request =
    Circuits
  | CircuitsRef string
  | CircuitsSeason string
  | Constructors
  | ConstructorsRef string
  | Drivers
  | DriversRef string
  | DriversSearch string
  | DriversRace string
  | RacesId string
  | RacesSeason string
  | RacesSeasonRound string string
  | RacesCircuits string
  | RacesCircuitsSeason string string string
  | Results string
  | ResultsDriver string
  | ResultsDriversSeasons string string string
  | Qualifying string
  | StandingsDrivers string
  | StandingsConstructors string

fun handler :: "request \<Rightarrow> action" where
  "handler Circuits = api_circuits"
| "handler (CircuitsRef circuitRef) = api_circuits_ref circuitRef"
| "handler (CircuitsSeason year) = api_circuits_season year"
| "handler Constructors = api_constructors"
| "handler (ConstructorsRef ref) = api_constructors_ref ref"
| "handler Drivers = api_drivers"
| "handler (DriversRef ref) = api_drivers_ref ref"
| "handler (DriversSearch substring) = api_drivers_search substring"
| "handler (DriversRace raceId) = api_drivers_race raceId"
| "handler (RacesId raceId) = api_races_id raceId"
| "handler (RacesSeason year) = api_races_season year"
| "handler (RacesSeasonRound year round') = api_races_season_round year round'"
| "handler (RacesCircuits ref) = api_races_circuits ref"
| "handler (RacesCircuitsSeason ref start end) = api_races_circuits_season ref start end"
| "handler (Results raceId) = api_results raceId"
| "handler (ResultsDriver ref) = api_results_driver ref"
| "handler (ResultsDriversSeasons ref start end) = api_results_drivers_seasons ref start end"
| "handler (Qualifying raceId) = api_qualifying raceId"
| "handler (StandingsDrivers raceId) = api_standings_drivers raceId"
| "handler (StandingsConstructors raceId) = api_standings_constructors raceId"


section \<open>Running a handler against a data store\<close>

text \<open>
  The data store is the collaborator behind \<open>db.all\<close> and \<open>db.get\<close>: it takes the
  statement text and the bind parameters and replies. A handler that answered at once
  never calls it.
\<close>

record store =
  db_all :: "string \<Rightarrow> string list \<Rightarrow> string + row list"
  db_get :: "string \<Rightarrow> string list \<Rightarrow> string + row option"

definition run :: "store \<Rightarrow> action \<Rightarrow> response" where
  "run st a =
     (case a of
        Done r \<Rightarrow> r
      | DbAll sql ps k \<Rightarrow> k (db_all st sql ps)
      | DbGet sql ps k \<Rightarrow> k (db_get st sql ps))"

fun statement_of :: "action \<Rightarrow> (string \<times> string list) option" where
  \<comment> \<open>the statement text and the bind parameters a handler submits, if it submits any\<close>
  "statement_of (Done r) = None"
| "statement_of (DbAll sql ps k) = Some (sql, ps)"
| "statement_of (DbGet sql ps k) = Some (sql, ps)"

fun operation :: "request \<Rightarrow> nat" where
  \<comment> \<open>the number of the operation a request addresses, as \<open>server.js\<close> numbers its routes\<close>
  "operation Circuits = 1"
| "operation (CircuitsRef a) = 2"
| "operation (CircuitsSeason a) = 3"
| "operation Constructors = 4"
| "operation (ConstructorsRef a) = 5"
| "operation Drivers = 6"
| "operation (DriversRef a) = 7"
| "operation (DriversSearch a) = 8"
| "operation (DriversRace a) = 9"
| "operation (RacesId a) = 10"
| "operation (RacesSeason a) = 11"
| "operation (RacesSeasonRound a b) = 12"
| "operation (RacesCircuits a) = 13"
| "operation (RacesCircuitsSeason a b c) = 14"
| "operation (Results a) = 15"
| "operation (ResultsDriver a) = 16"
| "operation (ResultsDriversSeasons a b c) = 17"
| "operation (Qualifying a) = 18"
| "operation (StandingsDrivers a) = 19"
| "operation (StandingsConstructors a) = 20"

fun path_params :: "request \<Rightarrow> string list" where
  \<comment> \<open>the path parameters of a request, in the order of the route\<close>
  "path_params Circuits = []"
| "path_params (CircuitsRef a) = [a]"
| "path_params (CircuitsSeason a) = [a]"
| "path_params Constructors = []"
| "path_params (ConstructorsRef a) = [a]"
| "path_params Drivers = []"
| "path_params (DriversRef a) = [a]"
| "path_params (DriversSearch a) = [a]"
| "path_params (DriversRace a) = [a]"
| "path_params (RacesId a) = [a]"
| "path_params (RacesSeason a) = [a]"
| "path_params (RacesSeasonRound a b) = [a, b]"
| "path_params (RacesCircuits a) = [a]"
| "path_params (RacesCircuitsSeason a b c) = [a, b, c]"
| "path_params (Results a) = [a]"
| "path_params (ResultsDriver a) = [a]"
| "path_params (ResultsDriversSeasons a b c) = [a, b, c]"
| "path_params (Qualifying a) = [a]"
| "path_params (StandingsDrivers a) = [a]"
| "path_params (StandingsConstructors a) = [a]"

fun integer_params :: "request \<Rightarrow> string list" where
  \<comment> \<open>the path parameters an operation declares as integers: \<open>raceId\<close> in operations 9, 10,
     15, 18, 19 and 20, \<open>year\<close> in 11, \<open>year\<close> and \<open>round\<close> in 12, \<open>start\<close> and \<open>end\<close> in
     14 and 17\<close>
  "integer_params (DriversRace raceId) = [raceId]"
| "integer_params (RacesId raceId) = [raceId]"
| "integer_params (RacesSeason year) = [year]"
| "integer_params (RacesSeasonRound year round') = [year, round']"
| "integer_params (RacesCircuitsSeason ref start end) = [start, end]"
| "integer_params (Results raceId) = [raceId]"
| "integer_params (ResultsDriversSeasons ref start end) = [start, end]"
| "integer_params (Qualifying raceId) = [raceId]"
| "integer_params (StandingsDrivers raceId) = [raceId]"
| "integer_params (StandingsConstructors raceId) = [raceId]"
| "integer_params _ = []"

fun inverted_range :: "request \<Rightarrow> bool" where
  \<comment> \<open>a two-ended range request whose end is less than its start, as numbers\<close>
  "inverted_range (RacesCircuitsSeason ref start end) = js_less (Number end) (Number start)"
| "inverted_range (ResultsDriversSeasons ref start end) = js_less (Number end) (Number start)"
| "inverted_range _ = False"

section \<open>The data store: SQLite on the statements of \<open>server.js\<close>\<close>

text \<open>
  The dataset \<open>data/f1.db\<close> is not part of the sources; it is a parameter of the model.
  A table is the list of its rows in storage order, a row the object \<open>SELECT *\<close> yields.
\<close>

record database =
  circuits :: "row list"
  constructors :: "row list"
  drivers :: "row list"
  races :: "row list"
  results :: "row list"
  qualifying :: "row list"
  driverStandings :: "row list"
  constructorStandings :: "row list"

subsection \<open>Comparing and ordering values\<close>

text \<open>
  SQLite orders values by storage class: \<open>NULL\<close> first, then the numbers (\<open>INTEGER\<close> and
  \<open>REAL\<close> together, by numeric value), then \<open>TEXT\<close> (byte order under the default
  collation). \<open>sql_rank\<close> maps a value to a key in a linear order that follows this:
  the class, the number (with a flag that puts the infinities below and above every
  finite number) and the text.
\<close>

fun sql_rank :: "sqlval \<Rightarrow> nat \<times> (int \<times> rat) \<times> string" where
  "sql_rank SNull = (0, (0, 0), [])"
| "sql_rank (SInt i) = (1, (0, of_int i), [])"
| "sql_rank (SReal NaN) = (0, (0, 0), [])"
| "sql_rank (SReal (Inf neg)) = (1, (if neg then - 1 else 1, 0), [])"
| "sql_rank (SReal (Fin x)) = (1, (0, x), [])"
| "sql_rank (SText s) = (2, (0, 0), s)"

definition is_null :: "sqlval \<Rightarrow> bool" where
  "is_null v = (v = SNull \<or> v = SReal NaN)"

text \<open>
  A comparison with \<open>NULL\<close> is \<open>NULL\<close>, and \<open>WHERE\<close> and \<open>ON\<close> keep a row only when the
  condition is true; so each operator is modelled by the predicate "the result is true".
\<close>

definition sql_eq :: "sqlval \<Rightarrow> sqlval \<Rightarrow> bool" where
  "sql_eq a b = (\<not> is_null a \<and> \<not> is_null b \<and> sql_rank a = sql_rank b)"

definition sql_le :: "sqlval \<Rightarrow> sqlval \<Rightarrow> bool" where
  "sql_le a b = (\<not> is_null a \<and> \<not> is_null b \<and> sql_rank a \<le> sql_rank b)"

definition sql_between :: "sqlval \<Rightarrow> sqlval \<Rightarrow> sqlval \<Rightarrow> bool" where
  \<comment> \<open>\<open>v BETWEEN lo AND hi\<close> is \<open>v >= lo AND v <= hi\<close>\<close>
  "sql_between v lo hi = (sql_le lo v \<and> sql_le v hi)"

subsection \<open>Bind parameters and column affinity\<close>

text \<open>
  The \<open>sqlite3\<close> binding binds a JavaScript string as \<open>TEXT\<close>. When a column of numeric
  affinity is compared with a \<open>TEXT\<close> operand that has no affinity, SQLite applies numeric
  affinity to the operand first: text that is a well-formed integer literal within 64
  bits becomes that \<open>INTEGER\<close>, text that is another well-formed decimal literal becomes
  the nearest \<open>REAL\<close>, and any other text (hexadecimal literals included) stays \<open>TEXT\<close>.
  A literal here is optional blanks, an optional sign, digits with an optional fraction
  and an optional exponent, and optional blanks.
\<close>

definition sqlite_isspace :: "char \<Rightarrow> bool" where
  "sqlite_isspace c = (of_char c \<in> {9, 10, 11, 12, 13, 32 :: int})"

definition sqlite_decimal :: "string \<Rightarrow> (bool \<times> int \<times> int \<times> bool) option" where
  \<comment> \<open>sign, mantissa, decimal exponent, and whether the text is a plain integer\<close>
  "sqlite_decimal s =
     (let t = rev (dropWhile sqlite_isspace (rev (dropWhile sqlite_isspace s)));
          neg = (case t of [] \<Rightarrow> False | c # _ \<Rightarrow> c = CHR ''-'');
          signed = (case t of [] \<Rightarrow> False | c # _ \<Rightarrow> c = CHR ''-'' \<or> c = CHR ''+'');
          u = (if signed then tl t else t);
          ip = takeWhile is_digit u;
          r = dropWhile is_digit u;
          dot = (case r of [] \<Rightarrow> False | c # _ \<Rightarrow> c = CHR ''.'');
          fp = (if dot then takeWhile is_digit (tl r) else []);
          r' = (if dot then dropWhile is_digit (tl r) else r)
      in if ip = [] \<and> fp = [] then None
         else case ExponentPart r' of
                None \<Rightarrow> None
              | Some e \<Rightarrow>
                  Some (neg, the (radix_value 10 (ip @ fp)), e - int (length fp),
                        \<not> dot \<and> r' = []))"

definition numeric_affinity :: "string \<Rightarrow> sqlval" where
  "numeric_affinity s =
     (case sqlite_decimal s of
        None \<Rightarrow> SText s
      | Some (neg, m, k, plain) \<Rightarrow>
          let i = (if neg then - m else m)
          in if plain \<and> - (2 ^ 63) \<le> i \<and> i < 2 ^ 63 then SInt i
             else SReal (decimal_to_double neg m k))"

subsection \<open>Text functions\<close>

text \<open>
  \<open>LOWER\<close> folds the ASCII letters only, \<open>LIKE\<close> matches \<open>%\<close> against any run of
  characters and \<open>_\<close> against any one character and ignores the case of ASCII letters.
  The statement of operation 8 has no \<open>ESCAPE\<close> clause.
\<close>

definition ascii_lower :: "char \<Rightarrow> char" where
  "ascii_lower c =
     (if 65 \<le> (of_char c :: int) \<and> (of_char c :: int) \<le> 90 then char_of (of_char c + 32 :: int) else c)"

definition lower :: "string \<Rightarrow> string" where
  "lower s = map ascii_lower s"

fun like :: "string \<Rightarrow> string \<Rightarrow> bool" where
  \<comment> \<open>\<open>like pattern s\<close> is \<open>s LIKE pattern\<close>\<close>
  "like [] s = (s = [])"
| "like (p # ps) s =
     (if p = CHR ''%'' then
        like ps s \<or> (case s of [] \<Rightarrow> False | c # t \<Rightarrow> like (p # ps) t)
      else
        (case s of
           [] \<Rightarrow> False
         | c # t \<Rightarrow> (p = CHR ''_'' \<or> ascii_lower p = ascii_lower c) \<and> like ps t))"

subsection \<open>The twenty statements\<close>

text \<open>
  Modelled from the spec: the column types of the dataset, whose schema is not among the
  sources. Section 3 of the specification makes the surrogate ids, the season year and
  the round integers and the refs and names text; so a parameter compared with
  \<open>raceId\<close>, \<open>year\<close> or \<open>round\<close> gets numeric affinity, and a parameter compared with a
  ref is compared as text.
\<close>

text \<open>
  Each statement is read as a relational expression over the tables: \<open>FROM\<close> and \<open>JOIN\<close>
  as nested loops in the order written, \<open>ON\<close> and \<open>WHERE\<close> as filters, \<open>ORDER BY\<close> as a
  stable sort on the keys (SQLite leaves the order of equal keys open), the select list
  as the object built from the named columns. Every function takes the bind parameters
  in the order of the \<open>?\<close> placeholders.
\<close>

definition q_circuits :: "database \<Rightarrow> row list" where
  "q_circuits db = circuits db"

definition q_circuits_ref :: "database \<Rightarrow> string \<Rightarrow> row list" where
  "q_circuits_ref db ref = [c. c \<leftarrow> circuits db, sql_eq (col c ''circuitRef'') (SText ref)]"

definition q_circuits_season :: "database \<Rightarrow> string \<Rightarrow> row list" where
  "q_circuits_season db year =
     map fst (sort_key (\<lambda>(c, r). sql_rank (col r ''round''))
       [(c, r). c \<leftarrow> circuits db, r \<leftarrow> races db,
          sql_eq (col c ''circuitId'') (col r ''circuitId''),
          sql_eq (col r ''year'') (numeric_affinity year)])"

definition q_constructors :: "database \<Rightarrow> row list" where
  "q_constructors db = constructors db"

definition q_constructors_ref :: "database \<Rightarrow> string \<Rightarrow> row list" where
  "q_constructors_ref db ref =
     [c. c \<leftarrow> constructors db, sql_eq (col c ''constructorRef'') (SText ref)]"

definition q_drivers :: "database \<Rightarrow> row list" where
  "q_drivers db = drivers db"

definition q_drivers_ref :: "database \<Rightarrow> string \<Rightarrow> row list" where
  "q_drivers_ref db ref = [d. d \<leftarrow> drivers db, sql_eq (col d ''driverRef'') (SText ref)]"

definition surname_like :: "string \<Rightarrow> sqlval \<Rightarrow> bool" where
  \<comment> \<open>\<open>LOWER(surname) LIKE LOWER(?) || '%'\<close> is true. A \<open>NULL\<close> surname gives \<open>NULL\<close>. A
     surname stored as a number is left unmatched here (SQLite would match its decimal
     rendering); the surnames of the dataset are text.\<close>
  "surname_like substring v =
     (case v of SText surname \<Rightarrow> like (lower substring @ ''%'') (lower surname) | _ \<Rightarrow> False)"

definition q_drivers_search :: "database \<Rightarrow> string \<Rightarrow> row list" where
  "q_drivers_search db substring =
     sort_key (\<lambda>d. (sql_rank (col d ''surname''), sql_rank (col d ''forename'')))
       [d. d \<leftarrow> drivers db, surname_like substring (col d ''surname'')]"

definition q_drivers_race :: "database \<Rightarrow> string \<Rightarrow> row list" where
  "q_drivers_race db raceId =
     map snd (sort_key (\<lambda>(r, d). sql_rank (col r ''grid''))
       [(r, d). r \<leftarrow> results db, d \<leftarrow> drivers db,
          sql_eq (col d ''driverId'') (col r ''driverId''),
          sql_eq (col r ''raceId'') (numeric_affinity raceId)])"

definition race_with_circuit :: "row \<times> row \<Rightarrow> row" where
  "race_with_circuit = (\<lambda>(r, c).
     [(''raceId'', col r ''raceId''), (''year'', col r ''year''), (''round'', col r ''round''),
      (''name'', col r ''name''), (''date'', col r ''date''), (''time'', col r ''time''),
      (''url'', col r ''url''),
      (''circuitName'', col c ''name''), (''location'', col c ''location''),
      (''country'', col c ''country'')])"

definition q_races_id :: "database \<Rightarrow> string \<Rightarrow> row list" where
  "q_races_id db raceId =
     map race_with_circuit
       [(r, c). r \<leftarrow> races db, c \<leftarrow> circuits db,
          sql_eq (col c ''circuitId'') (col r ''circuitId''),
          sql_eq (col r ''raceId'') (numeric_affinity raceId)]"

definition q_races_season :: "database \<Rightarrow> string \<Rightarrow> row list" where
  "q_races_season db year =
     sort_key (\<lambda>r. sql_rank (col r ''round''))
       [r. r \<leftarrow> races db, sql_eq (col r ''year'') (numeric_affinity year)]"

definition q_races_season_round :: "database \<Rightarrow> string \<Rightarrow> string \<Rightarrow> row list" where
  "q_races_season_round db year round' =
     [r. r \<leftarrow> races db,
        sql_eq (col r ''year'') (numeric_affinity year)
        \<and> sql_eq (col r ''round'') (numeric_affinity round')]"

definition q_races_circuits :: "database \<Rightarrow> string \<Rightarrow> row list" where
  "q_races_circuits db ref =
     map fst (sort_key (\<lambda>(r, c). (sql_rank (col r ''year''), sql_rank (col r ''round'')))
       [(r, c). r \<leftarrow> races db, c \<leftarrow> circuits db,
          sql_eq (col c ''circuitId'') (col r ''circuitId''),
          sql_eq (col c ''circuitRef'') (SText ref)])"

definition q_races_circuits_season :: "database \<Rightarrow> string \<Rightarrow> string \<Rightarrow> string \<Rightarrow> row list" where
  "q_races_circuits_season db ref start end =
     map fst (sort_key (\<lambda>(r, c). (sql_rank (col r ''year''), sql_rank (col r ''round'')))
       [(r, c). r \<leftarrow> races db, c \<leftarrow> circuits db,
          sql_eq (col c ''circuitId'') (col r ''circuitId''),
          sql_eq (col c ''circuitRef'') (SText ref)
          \<and> sql_between (col r ''year'') (numeric_affinity start) (numeric_affinity end)])"

definition result_row :: "row \<times> row \<times> row \<times> row \<Rightarrow> row" where
  "result_row = (\<lambda>(r, ra, d, c).
     [(''resultId'', col r ''resultId''), (''position'', col r ''position''),
      (''positionText'', col r ''positionText''), (''points'', col r ''points''),
      (''grid'', col r ''grid''), (''laps'', col r ''laps''), (''statusId'', col r ''statusId''),
      (''race_name'', col ra ''name''), (''race_round'', col ra ''round''),
      (''race_year'', col ra ''year''), (''race_date'', col ra ''date''),
      (''driver_ref'', col d ''driverRef''), (''driver_code'', col d ''code''),
      (''driver_forename'', col d ''forename''), (''driver_surname'', col d ''surname''),
      (''constructor_name'', col c ''name''), (''constructor_ref'', col c ''constructorRef''),
      (''constructor_nationality'', col c ''nationality'')])"

definition q_results :: "database \<Rightarrow> string \<Rightarrow> row list" where
  "q_results db raceId =
     map result_row (sort_key (\<lambda>(r, ra, d, c). sql_rank (col r ''grid''))
       [(r, ra, d, c). r \<leftarrow> results db, ra \<leftarrow> races db,
          sql_eq (col ra ''raceId'') (col r ''raceId''),
          d \<leftarrow> drivers db, sql_eq (col d ''driverId'') (col r ''driverId''),
          c \<leftarrow> constructors db, sql_eq (col c ''constructorId'') (col r ''constructorId''),
          sql_eq (col r ''raceId'') (numeric_affinity raceId)])"

definition driver_result_row :: "row \<times> row \<times> row \<times> row \<Rightarrow> row" where
  "driver_result_row = (\<lambda>(r, d, ra, c).
     [(''resultId'', col r ''resultId''), (''position'', col r ''position''),
      (''points'', col r ''points''), (''grid'', col r ''grid''), (''laps'', col r ''laps''),
      (''statusId'', col r ''statusId''),
      (''raceId'', col ra ''raceId''), (''year'', col ra ''year''), (''round'', col ra ''round''),
      (''name'', col ra ''name''), (''date'', col ra ''date''),
      (''constructor_name'', col c ''name''), (''constructor_ref'', col c ''constructorRef'')])"

definition q_results_driver :: "database \<Rightarrow> string \<Rightarrow> row list" where
  "q_results_driver db ref =
     map driver_result_row
       (sort_key (\<lambda>(r, d, ra, c). (sql_rank (col ra ''year''), sql_rank (col ra ''round'')))
         [(r, d, ra, c). r \<leftarrow> results db, d \<leftarrow> drivers db,
            sql_eq (col d ''driverId'') (col r ''driverId''),
            ra \<leftarrow> races db, sql_eq (col ra ''raceId'') (col r ''raceId''),
            c \<leftarrow> constructors db, sql_eq (col c ''constructorId'') (col r ''constructorId''),
            sql_eq (col d ''driverRef'') (SText ref)])"

definition q_results_drivers_seasons :: "database \<Rightarrow> string \<Rightarrow> string \<Rightarrow> string \<Rightarrow> row list" where
  "q_results_drivers_seasons db ref start end =
     map driver_result_row
       (sort_key (\<lambda>(r, d, ra, c). (sql_rank (col ra ''year''), sql_rank (col ra ''round'')))
         [(r, d, ra, c). r \<leftarrow> results db, d \<leftarrow> drivers db,
            sql_eq (col d ''driverId'') (col r ''driverId''),
            ra \<leftarrow> races db, sql_eq (col ra ''raceId'') (col r ''raceId''),
            c \<leftarrow> constructors db, sql_eq (col c ''constructorId'') (col r ''constructorId''),
            sql_eq (col d ''driverRef'') (SText ref)
            \<and> sql_between (col ra ''year'') (numeric_affinity start) (numeric_affinity end)])"

definition qualifying_row :: "row \<times> row \<times> row \<times> row \<Rightarrow> row" where
  "qualifying_row = (\<lambda>(q, ra, d, c).
     [(''qualifyId'', col q ''qualifyId''), (''position'', col q ''position''),
      (''q1'', col q ''q1''), (''q2'', col q ''q2''), (''q3'', col q ''q3''),
      (''race_name'', col ra ''name''), (''race_round'', col ra ''round''),
      (''race_year'', col ra ''year''), (''race_date'', col ra ''date''),
      (''driver_ref'', col d ''driverRef''), (''driver_code'', col d ''code''),
      (''driver_forename'', col d ''forename''), (''driver_surname'', col d ''surname''),
      (''constructor_name'', col c ''name''), (''constructor_ref'', col c ''constructorRef''),
      (''constructor_nationality'', col c ''nationality'')])"

definition q_qualifying :: "database \<Rightarrow> string \<Rightarrow> row list" where
  "q_qualifying db raceId =
     map qualifying_row (sort_key (\<lambda>(q, ra, d, c). sql_rank (col q ''position''))
       [(q, ra, d, c). q \<leftarrow> qualifying db, ra \<leftarrow> races db,
          sql_eq (col ra ''raceId'') (col q ''raceId''),
          d \<leftarrow> drivers db, sql_eq (col d ''driverId'') (col q ''driverId''),
          c \<leftarrow> constructors db, sql_eq (col c ''constructorId'') (col q ''constructorId''),
          sql_eq (col q ''raceId'') (numeric_affinity raceId)])"

definition driver_standing_row :: "row \<times> row \<Rightarrow> row" where
  "driver_standing_row = (\<lambda>(ds, d).
     [(''position'', col ds ''position''), (''points'', col ds ''points''),
      (''wins'', col ds ''wins''),
      (''driver_ref'', col d ''driverRef''), (''driver_code'', col d ''code''),
      (''driver_forename'', col d ''forename''), (''driver_surname'', col d ''surname'')])"

definition q_standings_drivers :: "database \<Rightarrow> string \<Rightarrow> row list" where
  "q_standings_drivers db raceId =
     map driver_standing_row (sort_key (\<lambda>(ds, d). sql_rank (col ds ''position''))
       [(ds, d). ds \<leftarrow> driverStandings db, d \<leftarrow> drivers db,
          sql_eq (col d ''driverId'') (col ds ''driverId''),
          sql_eq (col ds ''raceId'') (numeric_affinity raceId)])"

definition constructor_standing_row :: "row \<times> row \<Rightarrow> row" where
  "constructor_standing_row = (\<lambda>(cs, c).
     [(''position'', col cs ''position''), (''points'', col cs ''points''),
      (''wins'', col cs ''wins''),
      (''constructor_name'', col c ''name''), (''constructor_ref'', col c ''constructorRef''),
      (''constructor_nationality'', col c ''nationality'')])"

definition q_standings_constructors :: "database \<Rightarrow> string \<Rightarrow> row list" where
  "q_standings_constructors db raceId =
     map constructor_standing_row (sort_key (\<lambda>(cs, c). sql_rank (col cs ''position''))
       [(cs, c). cs \<leftarrow> constructorStandings db, c \<leftarrow> constructors db,
          sql_eq (col c ''constructorId'') (col cs ''constructorId''),
          sql_eq (col cs ''raceId'') (numeric_affinity raceId)])"

subsection \<open>Preparing and running a statement\<close>

text \<open>
  The store knows the statements above by their text. Any other text, or a parameter
  list of the wrong length, is an error reply; \<open>server.js\<close> submits neither.
  \<open>db.all\<close> replies with all rows, \<open>db.get\<close> with the first row if there is one.
\<close>

definition prepare :: "database \<Rightarrow> (string \<times> (string list \<Rightarrow> row list option)) list" where
  "prepare db =
     [(sql_api_circuits, \<lambda>ps. case ps of [] \<Rightarrow> Some (q_circuits db) | _ \<Rightarrow> None),
      (sql_api_circuits_ref, \<lambda>ps. case ps of [a] \<Rightarrow> Some (q_circuits_ref db a) | _ \<Rightarrow> None),
      (sql_api_circuits_season, \<lambda>ps. case ps of [a] \<Rightarrow> Some (q_circuits_season db a) | _ \<Rightarrow> None),
      (sql_api_constructors, \<lambda>ps. case ps of [] \<Rightarrow> Some (q_constructors db) | _ \<Rightarrow> None),
      (sql_api_constructors_ref, \<lambda>ps. case ps of [a] \<Rightarrow> Some (q_constructors_ref db a) | _ \<Rightarrow> None),
      (sql_api_drivers, \<lambda>ps. case ps of [] \<Rightarrow> Some (q_drivers db) | _ \<Rightarrow> None),
      (sql_api_drivers_ref, \<lambda>ps. case ps of [a] \<Rightarrow> Some (q_drivers_ref db a) | _ \<Rightarrow> None),
      (sql_api_drivers_search, \<lambda>ps. case ps of [a] \<Rightarrow> Some (q_drivers_search db a) | _ \<Rightarrow> None),
      (sql_api_drivers_race, \<lambda>ps. case ps of [a] \<Rightarrow> Some (q_drivers_race db a) | _ \<Rightarrow> None),
      (sql_api_races_id, \<lambda>ps. case ps of [a] \<Rightarrow> Some (q_races_id db a) | _ \<Rightarrow> None),
      (sql_api_races_season, \<lambda>ps. case ps of [a] \<Rightarrow> Some (q_races_season db a) | _ \<Rightarrow> None),
      (sql_api_races_season_round,
         \<lambda>ps. case ps of [a, b] \<Rightarrow> Some (q_races_season_round db a b) | _ \<Rightarrow> None),
      (sql_api_races_circuits, \<lambda>ps. case ps of [a] \<Rightarrow> Some (q_races_circuits db a) | _ \<Rightarrow> None),
      (sql_api_races_circuits_season,
         \<lambda>ps. case ps of [a, b, c] \<Rightarrow> Some (q_races_circuits_season db a b c) | _ \<Rightarrow> None),
      (sql_api_results, \<lambda>ps. case ps of [a] \<Rightarrow> Some (q_results db a) | _ \<Rightarrow> None),
      (sql_api_results_driver, \<lambda>ps. case ps of [a] \<Rightarrow> Some (q_results_driver db a) | _ \<Rightarrow> None),
      (sql_api_results_drivers_seasons,
         \<lambda>ps. case ps of [a, b, c] \<Rightarrow> Some (q_results_drivers_seasons db a b c) | _ \<Rightarrow> None),
      (sql_api_qualifying, \<lambda>ps. case ps of [a] \<Rightarrow> Some (q_qualifying db a) | _ \<Rightarrow> None),
      (sql_api_standings_drivers,
         \<lambda>ps. case ps of [a] \<Rightarrow> Some (q_standings_drivers db a) | _ \<Rightarrow> None),
      (sql_api_standings_constructors,
         \<lambda>ps. case ps of [a] \<Rightarrow> Some (q_standings_constructors db a) | _ \<Rightarrow> None)]"

definition sqlite_all :: "database \<Rightarrow> string \<Rightarrow> string list \<Rightarrow> string + row list" where
  "sqlite_all db sql ps =
     (case map_of (prepare db) sql of
        None \<Rightarrow> Inl ''SQLITE_ERROR: statement not modelled''
      | Some q \<Rightarrow>
          (case q ps of
             None \<Rightarrow> Inl ''SQLITE_RANGE: wrong number of bind parameters''
           | Some rows \<Rightarrow> Inr rows))"

definition sqlite_get :: "database \<Rightarrow> string \<Rightarrow> string list \<Rightarrow> string + row option" where
  "sqlite_get db sql ps =
     (case sqlite_all db sql ps of
        Inl err \<Rightarrow> Inl err
      | Inr rows \<Rightarrow> Inr (case rows of [] \<Rightarrow> None | r # _ \<Rightarrow> Some r))"

definition sqlite :: "database \<Rightarrow> store" where
  "sqlite db = \<lparr>db_all = sqlite_all db, db_get = sqlite_get db\<rparr>"

definition serve :: "database \<Rightarrow> request \<Rightarrow> response" where
  \<comment> \<open>the response of the server, over a dataset, to a request\<close>
  "serve db req = run (sqlite db) (handler req)"

section \<open>Notions used to state the properties\<close>

definition non_decreasing_in :: "string \<Rightarrow> row list \<Rightarrow> bool" where
  \<comment> \<open>the rows are in non-decreasing order of the named field, in the order of the store\<close>
  "non_decreasing_in c rows = sorted (map (\<lambda>r. sql_rank (col r c)) rows)"

definition number_of :: "sqlval \<Rightarrow> rat option" where
  \<comment> \<open>the finite number a value holds, if it holds one\<close>
  "number_of v = (case v of SInt i \<Rightarrow> Some (of_int i) | SReal (Fin x) \<Rightarrow> Some x | _ \<Rightarrow> None)"

definition in_interval :: "rat \<Rightarrow> rat \<Rightarrow> sqlval \<Rightarrow> bool" where
  \<comment> \<open>the value is a number of the closed interval from \<open>lo\<close> to \<open>hi\<close>\<close>
  "in_interval lo hi v = (case number_of v of None \<Rightarrow> False | Some y \<Rightarrow> lo \<le> y \<and> y \<le> hi)"

definition round_unique_in_season :: "database \<Rightarrow> bool" where
  \<comment> \<open>the dataset invariant: no two races of one season have the same round\<close>
  "round_unique_in_season db =
     (\<forall>r1 \<in> set (races db). \<forall>r2 \<in> set (races db).
        sql_eq (col r1 ''year'') (col r2 ''year'') \<and> sql_eq (col r1 ''round'') (col r2 ''round'')
          \<longrightarrow> r1 = r2)"

definition has_wildcard :: "string \<Rightarrow> bool" where
  "has_wildcard s = (CHR ''%'' \<in> set s \<or> CHR ''_'' \<in> set s)"

subsection \<open>A small dataset\<close>

definition race :: "int \<Rightarrow> int \<Rightarrow> int \<Rightarrow> string \<Rightarrow> int \<Rightarrow> row" where
  "race i y n nm c =
     [(''raceId'', SInt i), (''year'', SInt y), (''round'', SInt n), (''circuitId'', SInt c),
      (''name'', SText nm), (''date'', SText ''d''), (''time'', SNull), (''url'', SText ''u'')]"

definition circuit :: "int \<Rightarrow> string \<Rightarrow> string \<Rightarrow> string \<Rightarrow> string \<Rightarrow> row" where
  "circuit i ref nm loc ctry =
     [(''circuitId'', SInt i), (''circuitRef'', SText ref), (''name'', SText nm),
      (''location'', SText loc), (''country'', SText ctry)]"

definition driver :: "int \<Rightarrow> string \<Rightarrow> string \<Rightarrow> string \<Rightarrow> string \<Rightarrow> row" where
  "driver i ref cd fn sn =
     [(''driverId'', SInt i), (''driverRef'', SText ref), (''code'', SText cd),
      (''forename'', SText fn), (''surname'', SText sn)]"

definition constructor :: "int \<Rightarrow> string \<Rightarrow> string \<Rightarrow> string \<Rightarrow> row" where
  "constructor i ref nm ntl =
     [(''constructorId'', SInt i), (''constructorRef'', SText ref), (''name'', SText nm),
      (''nationality'', SText ntl)]"

definition result :: "int \<Rightarrow> int \<Rightarrow> int \<Rightarrow> int \<Rightarrow> int \<Rightarrow> sqlval \<Rightarrow> row" where
  "result i ra d c g pos =
     [(''resultId'', SInt i), (''raceId'', SInt ra), (''driverId'', SInt d),
      (''constructorId'', SInt c), (''grid'', SInt g), (''position'', pos),
      (''positionText'', SText ''t''), (''points'', SReal (Fin 0)), (''laps'', SInt 53),
      (''statusId'', SInt 1)]"

definition example_db :: database where
  "example_db =
     \<lparr>circuits = [circuit 14 ''monza'' ''Monza'' ''Monza'' ''Italy'',
                  circuit 6 ''monaco'' ''Monaco'' ''Monte-Carlo'' ''Monaco''],
      constructors = [constructor 131 ''mercedes'' ''Mercedes'' ''German'',
                      constructor 9 ''red_bull'' ''Red Bull'' ''Austrian''],
      drivers = [driver 830 ''max_verstappen'' ''VER'' ''Max'' ''Verstappen'',
                 driver 1 ''hamilton'' ''HAM'' ''Lewis'' ''Hamilton'',
                 driver 30 ''michael_schumacher'' ''MSC'' ''Michael'' ''Schumacher''],
      races = [race 1077 2022 4 ''Emilia'' 14,
               race 1074 2022 1 ''Bahrain'' 6,
               race 1089 2022 16 ''Italian'' 14,
               race 1038 2020 8 ''Italian'' 14],
      results = [result 1 1089 1 131 19 (SInt 5),
                 result 2 1089 830 9 7 (SInt 1),
                 result 3 1038 1 131 1 (SInt 7),
                 result 4 1038 830 9 5 SNull],
      qualifying = [],
      driverStandings = [],
      constructorStandings = []\<rparr>"


section \<open>Validation and error classification\<close>

lemmas handler_defs =
  api_circuits_def api_circuits_ref_def api_circuits_season_def api_constructors_def
  api_constructors_ref_def api_drivers_def api_drivers_ref_def api_drivers_search_def
  api_drivers_race_def api_races_id_def api_races_season_def api_races_season_round_def
  api_races_circuits_def api_races_circuits_season_def api_results_def api_results_driver_def
  api_results_drivers_seasons_def api_qualifying_def api_standings_drivers_def
  api_standings_constructors_def

lemma NaN_not_isInt: "Number v = NaN \<Longrightarrow> \<not> isInt v"
  by (simp add: isInt_def Number_isInteger_def)

text \<open>
  Claim C1, amended. For every operation that declares an integer-typed path parameter,
  a request in which one of these parameters has no number as its JavaScript \<open>Number\<close>
  conversion (the conversion is \<open>NaN\<close>, as for letters, punctuation or mixed text such
  as \<open>12px\<close>) is answered at once with status 400 and an \<open>{error: message}\<close> body: the
  handler hands no statement to the data store.
\<close>

theorem non_numeric_integer_param_400:
  assumes "\<exists>p \<in> set (integer_params req). Number p = NaN"
  shows "\<exists>msg. handler req = Done (Response 400 (ErrorJson msg))"
  using assms by (cases req) (auto simp: handler_defs badReq_def dest: NaN_not_isInt)

theorem non_numeric_integer_param_400_witness:
  "(\<exists>p \<in> set (integer_params (StandingsConstructors ''asds'')). Number p = NaN)
   \<and> handler (StandingsConstructors ''asds'') = Done (Response 400 (ErrorJson ''raceId must be an integer.''))"
proof -
  have n: "Number ''asds'' = NaN" by code_simp
  then have h: "\<exists>p \<in> set (integer_params (StandingsConstructors ''asds'')). Number p = NaN" by simp
  from non_numeric_integer_param_400 [OF h] h show ?thesis
    by (simp add: api_standings_constructors_def badReq_def NaN_not_isInt [OF n])
qed

text \<open>
  A blank parameter is not a number in any notation, yet \<open>Number\<close> converts it to \<open>0\<close>:
  the request \<open>/api/races/season/%20\<close> passes the check, its statement is submitted with
  the blank as bind parameter, and the answer is 404, not 400.
\<close>

theorem blank_integer_param_counterexample:
  "filter is_digit '' '' = [] \<and> Number '' '' = Fin 0 \<and> isInt '' ''
   \<and> integer_params (RacesSeason '' '') = ['' '']
   \<and> statement_of (handler (RacesSeason '' '')) = Some (sql_api_races_season, ['' ''])
   \<and> serve example_db (RacesSeason '' '') = Response 404 (ErrorJson ''No races for season  .'')"
  by code_simp

lemma rows_callback_simps:
  "rows_callback m (Inl e) = Response 500 (ErrorJson e)"
  "rows_callback m (Inr []) = notFound m"
  "rows \<noteq> [] \<Longrightarrow> rows_callback m (Inr rows) = Response 200 (ArrayJson rows)"
  by (simp_all add: rows_callback_def)

lemma row_callback_simps:
  "row_callback m (Inl e) = Response 500 (ErrorJson e)"
  "row_callback m (Inr None) = notFound m"
  "row_callback m (Inr (Some r)) = Response 200 (ObjectJson r)"
  by (simp_all add: row_callback_def)

lemma rows_callback_200:
  "status (rows_callback m reply) = 200 \<Longrightarrow>
     \<exists>rows. rows \<noteq> [] \<and> reply = Inr rows \<and> rows_callback m reply = Response 200 (ArrayJson rows)"
  by (cases reply) (auto simp: rows_callback_def notFound_def split: if_splits)

lemma row_callback_200:
  "status (row_callback m reply) = 200 \<Longrightarrow>
     \<exists>r. reply = Inr (Some r) \<and> row_callback m reply = Response 200 (ObjectJson r)"
  by (cases reply) (auto simp: row_callback_def notFound_def split: option.splits)

lemma handler_shape:
  "(\<exists>msg. handler req = Done (badReq msg))
   \<or> (\<exists>sql ps m. handler req = DbAll sql ps (rows_callback m))
   \<or> (\<exists>sql ps m. handler req = DbGet sql ps (row_callback m))"
  by (cases req) (auto simp: handler_defs)

text \<open>
  Claim C3. For each of the twenty operations and every data store: when the statement
  yields no rows (\<open>db.all\<close>) or no row (\<open>db.get\<close>), the response is 404 with an
  \<open>{error: message}\<close> body; and a response with status 200 carries the non-empty list of
  rows, or the row, that the store returned.
\<close>

theorem empty_result_is_404:
  "(\<forall>sql ps k. handler req = DbAll sql ps k \<longrightarrow> db_all st sql ps = Inr [] \<longrightarrow>
      (\<exists>msg. run st (handler req) = Response 404 (ErrorJson msg)))
   \<and> (\<forall>sql ps k. handler req = DbGet sql ps k \<longrightarrow> db_get st sql ps = Inr None \<longrightarrow>
      (\<exists>msg. run st (handler req) = Response 404 (ErrorJson msg)))
   \<and> (status (run st (handler req)) = 200 \<longrightarrow>
        (\<exists>sql ps k rows. handler req = DbAll sql ps k \<and> db_all st sql ps = Inr rows
            \<and> rows \<noteq> [] \<and> run st (handler req) = Response 200 (ArrayJson rows))
        \<or> (\<exists>sql ps k r. handler req = DbGet sql ps k \<and> db_get st sql ps = Inr (Some r)
            \<and> run st (handler req) = Response 200 (ObjectJson r)))"
proof -
  consider (bad) msg where "handler req = Done (badReq msg)"
    | (rows) sql ps m where "handler req = DbAll sql ps (rows_callback m)"
    | (row) sql ps m where "handler req = DbGet sql ps (row_callback m)"
    using handler_shape [of req] by blast
  then show ?thesis
  proof cases
    case bad
    then show ?thesis by (simp add: run_def badReq_def)
  next
    case rows
    then show ?thesis
      using rows_callback_200 [of m "db_all st sql ps"]
      by (auto simp: run_def rows_callback_simps notFound_def)
  next
    case row
    then show ?thesis
      using row_callback_200 [of m "db_get st sql ps"]
      by (auto simp: run_def row_callback_simps notFound_def)
  qed
qed

theorem empty_result_is_404_witness:
  "run \<lparr>db_all = (\<lambda>sql ps. Inr []), db_get = (\<lambda>sql ps. Inr None)\<rparr> (handler (DriversSearch ''xxxxx''))
     = Response 404 (ErrorJson ''No drivers with surname starting 'xxxxx'.'')
   \<and> run \<lparr>db_all = (\<lambda>sql ps. Inr []), db_get = (\<lambda>sql ps. Inr None)\<rparr> (handler (CircuitsRef ''calgary''))
     = Response 404 (ErrorJson ''No data found.'')
   \<and> status (run \<lparr>db_all = (\<lambda>sql ps. Inr [[(''driverId'', SInt 1)]]), db_get = (\<lambda>sql ps. Inr None)\<rparr>
        (handler Drivers)) = 200"
  using empty_result_is_404 [of "DriversSearch ''xxxxx''" "\<lparr>db_all = (\<lambda>sql ps. Inr []), db_get = (\<lambda>sql ps. Inr None)\<rparr>"]
    empty_result_is_404 [of "CircuitsRef ''calgary''" "\<lparr>db_all = (\<lambda>sql ps. Inr []), db_get = (\<lambda>sql ps. Inr None)\<rparr>"]
    empty_result_is_404 [of Drivers "\<lparr>db_all = (\<lambda>sql ps. Inr [[(''driverId'', SInt 1)]]), db_get = (\<lambda>sql ps. Inr None)\<rparr>"]
  by (simp add: run_def api_drivers_search_def api_circuits_ref_def api_drivers_def
      rows_callback_def row_callback_def notFound_def apostrophe_def)

text \<open>
  Claim C9. Two requests to the same operation submit the same statement text, whatever
  their path parameters are; the path parameters are exactly the bind parameters.
\<close>

theorem statement_text_fixed:
  assumes "operation req = operation req'"
    and "statement_of (handler req) = Some (sql, ps)"
    and "statement_of (handler req') = Some (sql', ps')"
  shows "sql = sql' \<and> ps = path_params req \<and> ps' = path_params req'"
  using assms
  by (cases req; cases req') (auto simp: handler_defs split: if_splits)

theorem statement_text_fixed_witness:
  "operation (DriversSearch ''sch'') = operation (DriversSearch ''x'; DROP TABLE drivers; --'')
   \<and> statement_of (handler (DriversSearch ''sch'')) = Some (sql_api_drivers_search, [''sch''])
   \<and> statement_of (handler (DriversSearch ''x'; DROP TABLE drivers; --''))
       = Some (sql_api_drivers_search, [''x'; DROP TABLE drivers; --''])"
  using statement_text_fixed [of "DriversSearch ''sch''" "DriversSearch ''x'; DROP TABLE drivers; --''"
      sql_api_drivers_search "[''sch'']" sql_api_drivers_search "[''x'; DROP TABLE drivers; --'']"]
  by (simp add: api_drivers_search_def)

lemma isInt_iff: "isInt v \<longleftrightarrow> (\<exists>n::int. Number v = Fin (of_int n))"
proof (cases "Number v")
  case (Fin x)
  then show ?thesis
    by (auto simp: isInt_def Number_isInteger_def intro: exI [of _ "\<lfloor>x\<rfloor>"])
qed (simp_all add: isInt_def Number_isInteger_def)

lemma not_isInt_iff:
  "\<not> isInt v \<longleftrightarrow> Number v = NaN \<or> (\<exists>b. Number v = Inf b) \<or> (\<exists>x. Number v = Fin x \<and> x \<notin> \<int>)"
proof (cases "Number v")
  case (Fin x)
  then show ?thesis
    by (auto simp: isInt_def Number_isInteger_def Ints_def intro: exI [of _ "\<lfloor>x\<rfloor>"])
qed (simp_all add: isInt_def Number_isInteger_def)

lemma isInt_examples: "isInt ''5.0''" "isInt ''0x1A''" "isInt ''1e3''" "isInt '' 42 ''"
  by code_simp+

lemma validated_params_are_bound:
  assumes "\<forall>p \<in> set (integer_params req). isInt p" and "\<not> inverted_range req"
  shows "\<exists>sql. statement_of (handler req) = Some (sql, path_params req)"
  using assms by (cases req) (simp_all add: handler_defs)

text \<open>
  Claim C10. \<open>isInt\<close> accepts exactly the strings whose \<open>Number\<close> conversion is an
  integer, and rejects exactly those whose conversion is \<open>NaN\<close>, infinite or fractional.
  The non-canonical forms \<open>5.0\<close>, \<open>0x1A\<close>, \<open>1e3\<close> and blank-padded digits pass, and
  a request whose integer parameters pass (and whose range is not inverted) binds its
  path parameters into the statement as the strings the caller sent.
\<close>

theorem isInt_accepts_js_integers:
  "(isInt v \<longleftrightarrow> (\<exists>n::int. Number v = Fin (of_int n)))
   \<and> (\<not> isInt v \<longleftrightarrow> Number v = NaN \<or> (\<exists>b. Number v = Inf b) \<or> (\<exists>x. Number v = Fin x \<and> x \<notin> \<int>))
   \<and> isInt ''5.0'' \<and> isInt ''0x1A'' \<and> isInt ''1e3'' \<and> isInt '' 42 ''
   \<and> ((\<forall>p \<in> set (integer_params req). isInt p) \<and> \<not> inverted_range req
        \<longrightarrow> (\<exists>sql. statement_of (handler req) = Some (sql, path_params req)))"
  using isInt_iff [of v] not_isInt_iff [of v] isInt_examples validated_params_are_bound [of req]
  by blast

theorem isInt_accepts_js_integers_witness:
  "Number ''0x1A'' = Fin (of_int 26) \<and> isInt ''0x1A''
   \<and> integer_params (DriversRace ''0x1A'') = [''0x1A'']
   \<and> \<not> inverted_range (DriversRace ''0x1A'')
   \<and> statement_of (handler (DriversRace ''0x1A'')) = Some (sql_api_drivers_race, [''0x1A''])
   \<and> Number ''5.5'' = Fin (11 / 2) \<and> \<not> isInt ''5.5''
   \<and> handler (DriversRace ''5.5'') = Done (Response 400 (ErrorJson ''raceId must be an integer.''))"
proof -
  have a: "Number ''0x1A'' = Fin (of_int 26)" by code_simp
  have b: "Number ''5.5'' = Fin (11 / 2)" by code_simp
  have c: "(11 / 2 :: rat) \<notin> \<int>"
  proof
    assume "(11 / 2 :: rat) \<in> \<int>"
    then obtain n :: int where "(11 / 2 :: rat) = of_int n" by (auto simp: Ints_def)
    then have "of_int (2 * n) = (of_int 11 :: rat)" by simp
    then have "2 * n = 11" by (simp only: of_int_eq_iff)
    then show False by presburger
  qed
  from isInt_accepts_js_integers [of "''0x1A''" "DriversRace ''0x1A''"] a
  have i: "isInt ''0x1A''" by blast
  from isInt_accepts_js_integers [of "''5.5''" "DriversRace ''0x1A''"] b c
  have j: "\<not> isInt ''5.5''" by blast
  from isInt_accepts_js_integers [of "''0x1A''" "DriversRace ''0x1A''"] i
  have k: "\<exists>sql. statement_of (handler (DriversRace ''0x1A'')) = Some (sql, path_params (DriversRace ''0x1A''))"
    by simp
  show ?thesis using a b i j k by (simp add: api_drivers_race_def badReq_def)
qed

lemma sublist_here: "sublist p (p @ b)"
  by (auto simp: sublist_def intro: exI [of _ "[]"])

lemma sublist_skip_char: "sublist p ys \<Longrightarrow> sublist p (y # ys)"
  by (simp add: sublist_Cons_right)

lemma sublist_skip: "sublist p ys \<Longrightarrow> sublist p (a @ ys)"
  by (auto simp: sublist_def) (metis append.assoc)

lemma not_found_names_key:
  assumes "operation req \<noteq> 2"
  shows "(\<forall>sql ps k msg. handler req = DbAll sql ps k \<longrightarrow> k (Inr []) = Response 404 (ErrorJson msg)
            \<longrightarrow> (\<forall>p \<in> set (path_params req). sublist p msg))
       \<and> (\<forall>sql ps k msg. handler req = DbGet sql ps k \<longrightarrow> k (Inr None) = Response 404 (ErrorJson msg)
            \<longrightarrow> (\<forall>p \<in> set (path_params req). sublist p msg))"
  using assms
  by (cases req)
     (auto simp: handler_defs rows_callback_def row_callback_def notFound_def
        sublist_here sublist_skip_char sublist_skip split: if_splits)

text \<open>
  Claim C4, at the request \<open>/api/circuits/calgary\<close> for a circuit reference that matches
  no row: the operation answers 404 with the default message \<open>No data found.\<close>, which
  does not contain the reference. The other keyed lookups name their key
  (\<open>not_found_names_key\<close>).
\<close>

theorem circuit_ref_not_found_message:
  "run \<lparr>db_all = (\<lambda>sql ps. Inr []), db_get = (\<lambda>sql ps. Inr None)\<rparr> (handler (CircuitsRef ''calgary''))
     = Response 404 (ErrorJson ''No data found.'')
   \<and> \<not> sublist ''calgary'' ''No data found.''"
proof -
  have "\<not> sublist ''calgary'' ''No data found.''" by code_simp
  then show ?thesis
    by (simp add: run_def api_circuits_ref_def row_callback_def notFound_def)
qed


section \<open>Queries against the dataset\<close>

lemmas sql_defs =
  sql_api_circuits_def sql_api_circuits_ref_def sql_api_circuits_season_def
  sql_api_constructors_def sql_api_constructors_ref_def sql_api_drivers_def
  sql_api_drivers_ref_def sql_api_drivers_search_def sql_api_drivers_race_def
  sql_api_races_id_def sql_api_races_season_def sql_api_races_season_round_def
  sql_api_races_circuits_def sql_api_races_circuits_season_def sql_api_results_def
  sql_api_results_driver_def sql_api_results_drivers_seasons_def sql_api_qualifying_def
  sql_api_standings_drivers_def sql_api_standings_constructors_def nl_def apostrophe_def

lemma sqlite_all_drivers_search:
  "sqlite_all db sql_api_drivers_search [s] = Inr (q_drivers_search db s)"
  by (simp add: sqlite_all_def prepare_def sql_defs)

lemma sqlite_all_races_season:
  "sqlite_all db sql_api_races_season [y] = Inr (q_races_season db y)"
  by (simp add: sqlite_all_def prepare_def sql_defs)

lemma sqlite_all_races_id:
  "sqlite_all db sql_api_races_id [i] = Inr (q_races_id db i)"
  by (simp add: sqlite_all_def prepare_def sql_defs)

lemma sqlite_all_races_season_round:
  "sqlite_all db sql_api_races_season_round [y, r] = Inr (q_races_season_round db y r)"
  by (simp add: sqlite_all_def prepare_def sql_defs)

lemma sqlite_all_races_circuits_season:
  "sqlite_all db sql_api_races_circuits_season [c, s, e] = Inr (q_races_circuits_season db c s e)"
  by (simp add: sqlite_all_def prepare_def sql_defs)

lemma sqlite_all_results:
  "sqlite_all db sql_api_results [i] = Inr (q_results db i)"
  by (simp add: sqlite_all_def prepare_def sql_defs)

lemma sqlite_all_results_drivers_seasons:
  "sqlite_all db sql_api_results_drivers_seasons [c, s, e] = Inr (q_results_drivers_seasons db c s e)"
  by (simp add: sqlite_all_def prepare_def sql_defs)

lemma rows_callback_200_rows:
  "rows_callback m (Inr xs) = Response 200 (ArrayJson rows) \<Longrightarrow> rows = xs \<and> xs \<noteq> []"
  by (simp add: rows_callback_def notFound_def split: if_splits)

lemma serve_races_season:
  "serve db (RacesSeason year) =
     (if \<not> isInt year then badReq ''Year must be an integer.''
      else rows_callback (Some (''No races for season '' @ year @ ''.'')) (Inr (q_races_season db year)))"
  by (simp add: serve_def run_def sqlite_def api_races_season_def sqlite_all_races_season)

lemma serve_results:
  "serve db (Results raceId) =
     (if \<not> isInt raceId then badReq ''raceId must be an integer.''
      else rows_callback (Some (''No results for raceId '' @ raceId @ ''.'')) (Inr (q_results db raceId)))"
  by (simp add: serve_def run_def sqlite_def api_results_def sqlite_all_results)

lemma non_decreasing_q_races_season: "non_decreasing_in ''round'' (q_races_season db year)"
  by (simp add: non_decreasing_in_def q_races_season_def)

lemma col_result_row_grid: "col (result_row (r, ra, d, c)) ''grid'' = col r ''grid''"
  by (simp add: result_row_def col_def)

lemma non_decreasing_q_results: "non_decreasing_in ''grid'' (q_results db raceId)"
proof -
  have "(\<lambda>t. sql_rank (col (result_row t) ''grid'')) = (\<lambda>(r, ra, d, c). sql_rank (col r ''grid''))"
    by (auto simp: fun_eq_iff col_result_row_grid)
  then show ?thesis
    by (simp add: non_decreasing_in_def q_results_def comp_def)
qed

lemma non_decreasing_in_SInt:
  assumes "non_decreasing_in c rows" and "i \<le> j" and "j < length rows"
    and "col (rows ! i) c = SInt a" and "col (rows ! j) c = SInt b"
  shows "a \<le> b"
proof -
  from assms(1-3) have "sql_rank (col (rows ! i) c) \<le> sql_rank (col (rows ! j) c)"
    unfolding non_decreasing_in_def
    using sorted_nth_mono [of "map (\<lambda>r. sql_rank (col r c)) rows" i j] by simp
  with assms(4,5) show ?thesis by auto
qed

text \<open>
  Claim C6. Whenever the races-in-a-season operation returns a list, the list is in
  non-decreasing order of \<open>round\<close>; whenever the race-results operation returns a list,
  the list is in non-decreasing order of \<open>grid\<close>. The order is the order of the store,
  which on integers is the numeric one (\<open>non_decreasing_in_SInt\<close>).
\<close>

theorem races_and_results_ordered:
  "(serve db (RacesSeason year) = Response 200 (ArrayJson rows)
      \<longrightarrow> non_decreasing_in ''round'' rows)
   \<and> (serve db (Results raceId) = Response 200 (ArrayJson rows')
      \<longrightarrow> non_decreasing_in ''grid'' rows')"
proof (intro conjI impI)
  assume "serve db (RacesSeason year) = Response 200 (ArrayJson rows)"
  then have "rows = q_races_season db year"
    by (auto simp: serve_races_season badReq_def split: if_splits dest: rows_callback_200_rows)
  then show "non_decreasing_in ''round'' rows"
    by (simp add: non_decreasing_q_races_season)
next
  assume "serve db (Results raceId) = Response 200 (ArrayJson rows')"
  then have "rows' = q_results db raceId"
    by (auto simp: serve_results badReq_def split: if_splits dest: rows_callback_200_rows)
  then show "non_decreasing_in ''grid'' rows'"
    by (simp add: non_decreasing_q_results)
qed

lemma example_races_2022:
  "serve example_db (RacesSeason ''2022'')
     = Response 200 (ArrayJson [race 1074 2022 1 ''Bahrain'' 6, race 1077 2022 4 ''Emilia'' 14,
         race 1089 2022 16 ''Italian'' 14])"
  by code_simp

lemma example_results_1089:
  "map (\<lambda>r. (col r ''grid'', col r ''driver_ref''))
     (case serve example_db (Results ''1089'') of Response s (ArrayJson rows) \<Rightarrow> rows | _ \<Rightarrow> [])
   = [(SInt 7, SText ''max_verstappen''), (SInt 19, SText ''hamilton'')]
   \<and> status (serve example_db (Results ''1089'')) = 200"
  by code_simp

theorem races_and_results_ordered_witness:
  "serve example_db (RacesSeason ''2022'')
     = Response 200 (ArrayJson [race 1074 2022 1 ''Bahrain'' 6, race 1077 2022 4 ''Emilia'' 14,
         race 1089 2022 16 ''Italian'' 14])
   \<and> non_decreasing_in ''round'' [race 1074 2022 1 ''Bahrain'' 6, race 1077 2022 4 ''Emilia'' 14,
         race 1089 2022 16 ''Italian'' 14]
   \<and> serve example_db (Results ''1089'') = Response 200 (ArrayJson (q_results example_db ''1089''))
   \<and> map (\<lambda>r. col r ''grid'') (q_results example_db ''1089'') = [SInt 7, SInt 19]
   \<and> non_decreasing_in ''grid'' (q_results example_db ''1089'')"
proof -
  have a: "serve example_db (RacesSeason ''2022'')
     = Response 200 (ArrayJson [race 1074 2022 1 ''Bahrain'' 6, race 1077 2022 4 ''Emilia'' 14,
         race 1089 2022 16 ''Italian'' 14])"
    by code_simp
  have b: "serve example_db (Results ''1089'') = Response 200 (ArrayJson (q_results example_db ''1089''))"
    by code_simp
  have c: "map (\<lambda>r. col r ''grid'') (q_results example_db ''1089'') = [SInt 7, SInt 19]"
    by code_simp
  from races_and_results_ordered [of example_db "''2022''" _ "''1089''" "q_results example_db ''1089''"]
    a b c show ?thesis by simp
qed

subsection \<open>Single races\<close>

lemma filter_comprehension: "[x. x \<leftarrow> A, P x] = filter P A"
  by (induction A) auto

lemma set_join2:
  "set [(a, b). a \<leftarrow> A, b \<leftarrow> B, P a b, Q a b]
     = {(a, b). a \<in> set A \<and> b \<in> set B \<and> P a b \<and> Q a b}"
  by (auto split: if_splits)

lemma set_join4:
  "set [(r, d, ra, c). r \<leftarrow> R, d \<leftarrow> D, P1 d r, ra \<leftarrow> RA, P2 ra r, c \<leftarrow> C, P3 c r, Q r d ra c]
     = {(r, d, ra, c). r \<in> set R \<and> d \<in> set D \<and> P1 d r \<and> ra \<in> set RA \<and> P2 ra r
          \<and> c \<in> set C \<and> P3 c r \<and> Q r d ra c}"
  by (auto split: if_splits)

lemma sqlite_get_races_id:
  "sqlite_get db sql_api_races_id [i]
     = Inr (case q_races_id db i of [] \<Rightarrow> None | r # _ \<Rightarrow> Some r)"
  by (simp add: sqlite_get_def sqlite_all_races_id)

lemma sqlite_get_races_season_round:
  "sqlite_get db sql_api_races_season_round [y, n]
     = Inr (case q_races_season_round db y n of [] \<Rightarrow> None | r # _ \<Rightarrow> Some r)"
  by (simp add: sqlite_get_def sqlite_all_races_season_round)

lemma first_row_in_set:
  assumes "xs \<noteq> []"
  obtains x where "(case xs of [] \<Rightarrow> None | r # _ \<Rightarrow> Some r) = Some x" and "x \<in> set xs"
  using assms by (cases xs) auto

lemma race_with_circuit_keys:
  "map fst (race_with_circuit (r, c))
     = [''raceId'', ''year'', ''round'', ''name'', ''date'', ''time'', ''url'',
        ''circuitName'', ''location'', ''country'']"
  by (simp add: race_with_circuit_def)

lemma race_with_circuit_cols:
  "col (race_with_circuit (r, c)) ''raceId'' = col r ''raceId''"
  "col (race_with_circuit (r, c)) ''year'' = col r ''year''"
  "col (race_with_circuit (r, c)) ''round'' = col r ''round''"
  "col (race_with_circuit (r, c)) ''name'' = col r ''name''"
  "col (race_with_circuit (r, c)) ''circuitName'' = col c ''name''"
  "col (race_with_circuit (r, c)) ''location'' = col c ''location''"
  "col (race_with_circuit (r, c)) ''country'' = col c ''country''"
  by (simp_all add: race_with_circuit_def col_def)

text \<open>
  Claim C7. For a race id that the store matches with a race whose circuit resolves, the
  get-race-by-id operation answers 200 with one object: the seven race fields and the
  circuit's name (as \<open>circuitName\<close>), location and country, taken from a race row with
  that id and the circuit row joined to it. The object has no \<open>circuitId\<close> field.
\<close>

theorem race_by_id_inlines_circuit:
  assumes "isInt raceId"
    and "r \<in> set (races db)" and "sql_eq (col r ''raceId'') (numeric_affinity raceId)"
    and "c \<in> set (circuits db)" and "sql_eq (col c ''circuitId'') (col r ''circuitId'')"
  shows "\<exists>obj r' c'.
           serve db (RacesId raceId) = Response 200 (ObjectJson obj)
         \<and> r' \<in> set (races db) \<and> sql_eq (col r' ''raceId'') (numeric_affinity raceId)
         \<and> c' \<in> set (circuits db) \<and> sql_eq (col c' ''circuitId'') (col r' ''circuitId'')
         \<and> map fst obj = [''raceId'', ''year'', ''round'', ''name'', ''date'', ''time'', ''url'',
                           ''circuitName'', ''location'', ''country'']
         \<and> ''circuitId'' \<notin> fst ` set obj
         \<and> col obj ''raceId'' = col r' ''raceId''
         \<and> col obj ''circuitName'' = col c' ''name''
         \<and> col obj ''location'' = col c' ''location''
         \<and> col obj ''country'' = col c' ''country''"
proof -
  let ?L = "[(r, c). r \<leftarrow> races db, c \<leftarrow> circuits db,
               sql_eq (col c ''circuitId'') (col r ''circuitId''),
               sql_eq (col r ''raceId'') (numeric_affinity raceId)]"
  have q: "q_races_id db raceId = map race_with_circuit ?L"
    by (simp add: q_races_id_def)
  have L: "set ?L = {(r, c). r \<in> set (races db) \<and> c \<in> set (circuits db)
                \<and> sql_eq (col c ''circuitId'') (col r ''circuitId'')
                \<and> sql_eq (col r ''raceId'') (numeric_affinity raceId)}"
    by (rule set_join2)
  from assms have "(r, c) \<in> set ?L" unfolding L by simp
  then have "?L \<noteq> []" by (metis empty_iff empty_set)
  then have "q_races_id db raceId \<noteq> []" unfolding q by simp
  then obtain obj where first: "(case q_races_id db raceId of [] \<Rightarrow> None | x # _ \<Rightarrow> Some x) = Some obj"
    and mem: "obj \<in> set (q_races_id db raceId)"
    by (rule first_row_in_set)
  from mem obtain r' c' where pair: "(r', c') \<in> set ?L" and obj: "obj = race_with_circuit (r', c')"
    unfolding q set_map by auto
  have keys: "map fst obj = [''raceId'', ''year'', ''round'', ''name'', ''date'', ''time'', ''url'',
                           ''circuitName'', ''location'', ''country'']"
    by (simp add: obj race_with_circuit_keys)
  have "fst ` set obj = set (map fst obj)" by simp
  then have nokey: "''circuitId'' \<notin> fst ` set obj" unfolding keys by simp
  have resp: "serve db (RacesId raceId) = Response 200 (ObjectJson obj)"
    using assms(1) first
    by (simp add: serve_def run_def sqlite_def api_races_id_def sqlite_get_races_id row_callback_def)
  from pair have "r' \<in> set (races db)" "c' \<in> set (circuits db)"
    "sql_eq (col r' ''raceId'') (numeric_affinity raceId)"
    "sql_eq (col c' ''circuitId'') (col r' ''circuitId'')"
    unfolding L by simp_all
  with resp keys nokey show ?thesis
    by (intro exI [of _ obj] exI [of _ r'] exI [of _ c']) (simp add: obj race_with_circuit_cols)
qed

lemma sql_eq_same_param: "sql_eq a p \<Longrightarrow> sql_eq b p \<Longrightarrow> sql_eq a b"
  by (simp add: sql_eq_def)

text \<open>
  Claim C8. When no two races of a season share a round, a request for a season and a
  round that some race matches is answered with exactly that race. The scenario of
  season 2022, round 4 is the instance checked below.
\<close>

theorem race_by_season_and_round:
  assumes "round_unique_in_season db"
    and "isInt year" and "isInt round'"
    and "r \<in> set (races db)"
    and "sql_eq (col r ''year'') (numeric_affinity year)"
    and "sql_eq (col r ''round'') (numeric_affinity round')"
  shows "serve db (RacesSeasonRound year round') = Response 200 (ObjectJson r)"
proof -
  let ?P = "\<lambda>x. sql_eq (col x ''year'') (numeric_affinity year)
                \<and> sql_eq (col x ''round'') (numeric_affinity round')"
  have q: "q_races_season_round db year round' = filter ?P (races db)"
    unfolding q_races_season_round_def by (rule filter_comprehension)
  from assms(4-6) have "r \<in> set (filter ?P (races db))" by simp
  then have "q_races_season_round db year round' \<noteq> []"
    unfolding q by (metis empty_iff empty_set)
  then obtain x where first:
      "(case q_races_season_round db year round' of [] \<Rightarrow> None | y # _ \<Rightarrow> Some y) = Some x"
    and mem: "x \<in> set (q_races_season_round db year round')"
    by (rule first_row_in_set)
  from mem have x: "x \<in> set (races db)" "?P x" unfolding q by auto
  from x(2) assms(5,6) have "sql_eq (col x ''year'') (col r ''year'')"
    "sql_eq (col x ''round'') (col r ''round'')"
    by (auto intro: sql_eq_same_param)
  with assms(1,4) x(1) have "x = r"
    unfolding round_unique_in_season_def by blast
  with first assms(2,3) show ?thesis
    by (simp add: serve_def run_def sqlite_def api_races_season_round_def
        sqlite_get_races_season_round row_callback_def)
qed

theorem race_by_id_inlines_circuit_witness:
  "isInt ''1089''
   \<and> race 1089 2022 16 ''Italian'' 14 \<in> set (races example_db)
   \<and> sql_eq (col (race 1089 2022 16 ''Italian'' 14) ''raceId'') (numeric_affinity ''1089'')
   \<and> circuit 14 ''monza'' ''Monza'' ''Monza'' ''Italy'' \<in> set (circuits example_db)
   \<and> sql_eq (col (circuit 14 ''monza'' ''Monza'' ''Monza'' ''Italy'') ''circuitId'')
        (col (race 1089 2022 16 ''Italian'' 14) ''circuitId'')
   \<and> serve example_db (RacesId ''1089'')
       = Response 200 (ObjectJson
           [(''raceId'', SInt 1089), (''year'', SInt 2022), (''round'', SInt 16),
            (''name'', SText ''Italian''), (''date'', SText ''d''), (''time'', SNull),
            (''url'', SText ''u''), (''circuitName'', SText ''Monza''),
            (''location'', SText ''Monza''), (''country'', SText ''Italy'')])"
proof -
  have h: "isInt ''1089''"
    "race 1089 2022 16 ''Italian'' 14 \<in> set (races example_db)"
    "sql_eq (col (race 1089 2022 16 ''Italian'' 14) ''raceId'') (numeric_affinity ''1089'')"
    "circuit 14 ''monza'' ''Monza'' ''Monza'' ''Italy'' \<in> set (circuits example_db)"
    "sql_eq (col (circuit 14 ''monza'' ''Monza'' ''Monza'' ''Italy'') ''circuitId'')
        (col (race 1089 2022 16 ''Italian'' 14) ''circuitId'')"
    by code_simp+
  have e: "serve example_db (RacesId ''1089'')
       = Response 200 (ObjectJson
           [(''raceId'', SInt 1089), (''year'', SInt 2022), (''round'', SInt 16),
            (''name'', SText ''Italian''), (''date'', SText ''d''), (''time'', SNull),
            (''url'', SText ''u''), (''circuitName'', SText ''Monza''),
            (''location'', SText ''Monza''), (''country'', SText ''Italy'')])"
    by code_simp
  from race_by_id_inlines_circuit [OF h] h e show ?thesis by simp
qed

theorem race_by_season_and_round_witness:
  "round_unique_in_season example_db \<and> isInt ''2022'' \<and> isInt ''4''
   \<and> race 1077 2022 4 ''Emilia'' 14 \<in> set (races example_db)
   \<and> sql_eq (col (race 1077 2022 4 ''Emilia'' 14) ''year'') (numeric_affinity ''2022'')
   \<and> sql_eq (col (race 1077 2022 4 ''Emilia'' 14) ''round'') (numeric_affinity ''4'')
   \<and> serve example_db (RacesSeasonRound ''2022'' ''4'')
       = Response 200 (ObjectJson (race 1077 2022 4 ''Emilia'' 14))
   \<and> col (race 1077 2022 4 ''Emilia'' 14) ''round'' = SInt 4
   \<and> col (race 1077 2022 4 ''Emilia'' 14) ''year'' = SInt 2022"
proof -
  have h: "round_unique_in_season example_db" "isInt ''2022''" "isInt ''4''"
    "race 1077 2022 4 ''Emilia'' 14 \<in> set (races example_db)"
    "sql_eq (col (race 1077 2022 4 ''Emilia'' 14) ''year'') (numeric_affinity ''2022'')"
    "sql_eq (col (race 1077 2022 4 ''Emilia'' 14) ''round'') (numeric_affinity ''4'')"
    by code_simp+
  have c: "col (race 1077 2022 4 ''Emilia'' 14) ''round'' = SInt 4"
    "col (race 1077 2022 4 ''Emilia'' 14) ''year'' = SInt 2022"
    by code_simp+
  from race_by_season_and_round [OF h] h c show ?thesis by simp
qed

subsection \<open>Ranges of seasons\<close>

lemma number_of_rank:
  assumes "number_of a = Some x"
  shows "sql_rank a = (1, (0, x), []) \<and> \<not> is_null a"
proof (cases a)
  case (SReal d)
  with assms show ?thesis by (cases d) (auto simp: number_of_def is_null_def)
qed (use assms in \<open>auto simp: number_of_def is_null_def\<close>)

lemma sql_between_numbers:
  assumes "number_of a = Some lo" and "number_of b = Some hi"
  shows "sql_between v a b = in_interval lo hi v"
proof (cases v)
  case (SReal d)
  then show ?thesis
    using number_of_rank [OF assms(1)] number_of_rank [OF assms(2)]
    by (cases d) (auto simp: sql_between_def sql_le_def is_null_def in_interval_def number_of_def)
qed (use number_of_rank [OF assms(1)] number_of_rank [OF assms(2)] in
      \<open>auto simp: sql_between_def sql_le_def is_null_def in_interval_def number_of_def\<close>)

lemma in_fst_image: "r \<in> fst ` S \<longleftrightarrow> (\<exists>c. (r, c) \<in> S)"
  by force

lemma in_image4: "obj \<in> f ` S \<longleftrightarrow> (\<exists>r d ra c. (r, d, ra, c) \<in> S \<and> obj = f (r, d, ra, c))"
  by force

lemma set_q_races_circuits_season:
  assumes "number_of (numeric_affinity start) = Some lo"
    and "number_of (numeric_affinity end) = Some hi"
  shows "r \<in> set (q_races_circuits_season db ref start end) \<longleftrightarrow>
           r \<in> set (races db)
         \<and> (\<exists>c \<in> set (circuits db). sql_eq (col c ''circuitId'') (col r ''circuitId'')
               \<and> sql_eq (col c ''circuitRef'') (SText ref))
         \<and> in_interval lo hi (col r ''year'')"
proof -
  let ?L = "[(r, c). r \<leftarrow> races db, c \<leftarrow> circuits db,
          sql_eq (col c ''circuitId'') (col r ''circuitId''),
          sql_eq (col c ''circuitRef'') (SText ref) \<and> in_interval lo hi (col r ''year'')]"
  have L: "set ?L = {(r, c). r \<in> set (races db) \<and> c \<in> set (circuits db)
          \<and> sql_eq (col c ''circuitId'') (col r ''circuitId'')
          \<and> (sql_eq (col c ''circuitRef'') (SText ref) \<and> in_interval lo hi (col r ''year''))}"
    by (rule set_join2)
  have "set (q_races_circuits_season db ref start end) = fst ` set ?L"
    unfolding q_races_circuits_season_def sql_between_numbers [OF assms]
    by (simp only: set_map set_sort)
  then have "r \<in> set (q_races_circuits_season db ref start end) \<longleftrightarrow> (\<exists>c. (r, c) \<in> set ?L)"
    by (simp only: in_fst_image)
  also have "\<dots> \<longleftrightarrow> (\<exists>c. r \<in> set (races db) \<and> c \<in> set (circuits db)
          \<and> sql_eq (col c ''circuitId'') (col r ''circuitId'')
          \<and> sql_eq (col c ''circuitRef'') (SText ref)
          \<and> in_interval lo hi (col r ''year''))"
    unfolding L by (simp only: mem_Collect_eq prod.case conj_assoc)
  finally show ?thesis by blast
qed

lemma set_q_results_drivers_seasons:
  assumes "number_of (numeric_affinity start) = Some lo"
    and "number_of (numeric_affinity end) = Some hi"
  shows "obj \<in> set (q_results_drivers_seasons db ref start end) \<longleftrightarrow>
          (\<exists>r d ra c. r \<in> set (results db)
             \<and> d \<in> set (drivers db) \<and> sql_eq (col d ''driverId'') (col r ''driverId'')
             \<and> ra \<in> set (races db) \<and> sql_eq (col ra ''raceId'') (col r ''raceId'')
             \<and> c \<in> set (constructors db) \<and> sql_eq (col c ''constructorId'') (col r ''constructorId'')
             \<and> sql_eq (col d ''driverRef'') (SText ref)
             \<and> in_interval lo hi (col ra ''year'')
             \<and> obj = driver_result_row (r, d, ra, c))"
proof -
  let ?L = "[(r, d, ra, c). r \<leftarrow> results db, d \<leftarrow> drivers db,
            sql_eq (col d ''driverId'') (col r ''driverId''),
            ra \<leftarrow> races db, sql_eq (col ra ''raceId'') (col r ''raceId''),
            c \<leftarrow> constructors db, sql_eq (col c ''constructorId'') (col r ''constructorId''),
            sql_eq (col d ''driverRef'') (SText ref) \<and> in_interval lo hi (col ra ''year'')]"
  have L: "set ?L = {(r, d, ra, c). r \<in> set (results db)
            \<and> d \<in> set (drivers db) \<and> sql_eq (col d ''driverId'') (col r ''driverId'')
            \<and> ra \<in> set (races db) \<and> sql_eq (col ra ''raceId'') (col r ''raceId'')
            \<and> c \<in> set (constructors db) \<and> sql_eq (col c ''constructorId'') (col r ''constructorId'')
            \<and> (sql_eq (col d ''driverRef'') (SText ref) \<and> in_interval lo hi (col ra ''year''))}"
    by (rule set_join4)
  have "set (q_results_drivers_seasons db ref start end) = driver_result_row ` set ?L"
    unfolding q_results_drivers_seasons_def sql_between_numbers [OF assms]
    by (simp only: set_map set_sort)
  then have "obj \<in> set (q_results_drivers_seasons db ref start end)
      \<longleftrightarrow> (\<exists>r d ra c. (r, d, ra, c) \<in> set ?L \<and> obj = driver_result_row (r, d, ra, c))"
    by (simp only: in_image4)
  also have "\<dots> \<longleftrightarrow> (\<exists>r d ra c. r \<in> set (results db)
             \<and> d \<in> set (drivers db) \<and> sql_eq (col d ''driverId'') (col r ''driverId'')
             \<and> ra \<in> set (races db) \<and> sql_eq (col ra ''raceId'') (col r ''raceId'')
             \<and> c \<in> set (constructors db) \<and> sql_eq (col c ''constructorId'') (col r ''constructorId'')
             \<and> sql_eq (col d ''driverRef'') (SText ref)
             \<and> in_interval lo hi (col ra ''year'')
             \<and> obj = driver_result_row (r, d, ra, c))"
    unfolding L by (simp only: mem_Collect_eq prod.case conj_assoc)
  finally show ?thesis .
qed

lemma serve_races_circuits_season:
  assumes "isInt start" and "isInt end" and "\<not> js_less (Number end) (Number start)"
  shows "serve db (RacesCircuitsSeason ref start end)
     = rows_callback (Some (''No races for '' @ apostrophe @ ref @ apostrophe
                @ '' between '' @ start @ '' and '' @ end @ ''.''))
         (Inr (q_races_circuits_season db ref start end))"
  using assms
  by (simp add: serve_def run_def sqlite_def api_races_circuits_season_def
      sqlite_all_races_circuits_season)

lemma serve_results_drivers_seasons:
  assumes "isInt start" and "isInt end" and "\<not> js_less (Number end) (Number start)"
  shows "serve db (ResultsDriversSeasons ref start end)
     = rows_callback (Some (''No results for '' @ apostrophe @ ref @ apostrophe
                @ '' between '' @ start @ '' and '' @ end @ ''.''))
         (Inr (q_results_drivers_seasons db ref start end))"
  using assms
  by (simp add: serve_def run_def sqlite_def api_results_drivers_seasons_def
      sqlite_all_results_drivers_seasons)

lemma range_inverted_400:
  assumes "js_less (Number end) (Number start)"
  shows "(\<exists>msg. handler (RacesCircuitsSeason ref start end) = Done (Response 400 (ErrorJson msg)))
       \<and> (\<exists>msg. handler (ResultsDriversSeasons ref start end) = Done (Response 400 (ErrorJson msg)))"
  using assms
  by (simp add: api_races_circuits_season_def api_results_drivers_seasons_def badReq_def)

lemma range_format_first:
  assumes "\<not> isInt start \<or> \<not> isInt end"
  shows "handler (RacesCircuitsSeason ref start end) = Done (badReq ''start and end must be integers.'')
       \<and> handler (ResultsDriversSeasons ref start end) = Done (badReq ''start and end must be integers.'')"
  using assms
  by (auto simp: api_races_circuits_season_def api_results_drivers_seasons_def)

lemma rows_callback_if:
  "rows_callback (Some msg) (Inr rows)
     = (if rows = [] then Response 404 (ErrorJson msg) else Response 200 (ArrayJson rows))"
  by (simp add: rows_callback_def notFound_def)

text \<open>
  Claim C2, amended. For both range operations: a request whose end is less than its
  start as JavaScript numbers (the doubles \<open>Number(end) < Number(start)\<close>) is answered
  400 without a statement being submitted; a bound that is not an integer is reported as
  such, whatever the order of the bounds; and when both bounds pass the check, the range
  is not inverted and the store reads the bounds as the numbers \<open>lo\<close> and \<open>hi\<close> (decimal
  literals such as \<open>2020\<close> or \<open>2020.0\<close>), the rows returned are exactly the joined rows
  of the reference whose year lies in the closed interval from \<open>lo\<close> to \<open>hi\<close>; the
  response is 404 when there is none.
\<close>

theorem season_range_operations:
  "(js_less (Number end) (Number start) \<longrightarrow>
      (\<exists>msg. handler (RacesCircuitsSeason ref start end) = Done (Response 400 (ErrorJson msg)))
    \<and> (\<exists>msg. handler (ResultsDriversSeasons ref start end) = Done (Response 400 (ErrorJson msg))))
   \<and> (\<not> isInt start \<or> \<not> isInt end \<longrightarrow>
      handler (RacesCircuitsSeason ref start end) = Done (badReq ''start and end must be integers.'')
    \<and> handler (ResultsDriversSeasons ref start end) = Done (badReq ''start and end must be integers.''))
   \<and> (isInt start \<and> isInt end \<and> \<not> js_less (Number end) (Number start)
        \<and> number_of (numeric_affinity start) = Some lo
        \<and> number_of (numeric_affinity end) = Some hi \<longrightarrow>
      (\<exists>rows msg.
         (\<forall>r. r \<in> set rows \<longleftrightarrow>
              r \<in> set (races db)
            \<and> (\<exists>c \<in> set (circuits db). sql_eq (col c ''circuitId'') (col r ''circuitId'')
                  \<and> sql_eq (col c ''circuitRef'') (SText ref))
            \<and> in_interval lo hi (col r ''year''))
       \<and> serve db (RacesCircuitsSeason ref start end)
           = (if rows = [] then Response 404 (ErrorJson msg) else Response 200 (ArrayJson rows)))
    \<and> (\<exists>rows msg.
         (\<forall>obj. obj \<in> set rows \<longleftrightarrow>
            (\<exists>r d ra c. r \<in> set (results db)
               \<and> d \<in> set (drivers db) \<and> sql_eq (col d ''driverId'') (col r ''driverId'')
               \<and> ra \<in> set (races db) \<and> sql_eq (col ra ''raceId'') (col r ''raceId'')
               \<and> c \<in> set (constructors db)
               \<and> sql_eq (col c ''constructorId'') (col r ''constructorId'')
               \<and> sql_eq (col d ''driverRef'') (SText ref)
               \<and> in_interval lo hi (col ra ''year'')
               \<and> obj = driver_result_row (r, d, ra, c)))
       \<and> serve db (ResultsDriversSeasons ref start end)
           = (if rows = [] then Response 404 (ErrorJson msg) else Response 200 (ArrayJson rows))))"
proof (intro conjI impI)
  assume "js_less (Number end) (Number start)"
  then show "\<exists>msg. handler (RacesCircuitsSeason ref start end) = Done (Response 400 (ErrorJson msg))"
    "\<exists>msg. handler (ResultsDriversSeasons ref start end) = Done (Response 400 (ErrorJson msg))"
    using range_inverted_400 by blast+
next
  assume "\<not> isInt start \<or> \<not> isInt end"
  then show "handler (RacesCircuitsSeason ref start end) = Done (badReq ''start and end must be integers.'')"
    "handler (ResultsDriversSeasons ref start end) = Done (badReq ''start and end must be integers.'')"
    using range_format_first by blast+
next
  assume a: "isInt start \<and> isInt end \<and> \<not> js_less (Number end) (Number start)
        \<and> number_of (numeric_affinity start) = Some lo
        \<and> number_of (numeric_affinity end) = Some hi"
  then have i: "isInt start" "isInt end" "\<not> js_less (Number end) (Number start)"
    by simp_all
  let ?q = "q_races_circuits_season db ref start end"
  let ?m = "''No races for '' @ apostrophe @ ref @ apostrophe
              @ '' between '' @ start @ '' and '' @ end @ ''.''"
  have A: "\<forall>r. r \<in> set ?q \<longleftrightarrow>
              r \<in> set (races db)
            \<and> (\<exists>c \<in> set (circuits db). sql_eq (col c ''circuitId'') (col r ''circuitId'')
                  \<and> sql_eq (col c ''circuitRef'') (SText ref))
            \<and> in_interval lo hi (col r ''year'')"
    using a set_q_races_circuits_season [of start lo "end" hi _ db ref] by blast
  have B: "serve db (RacesCircuitsSeason ref start end)
           = (if ?q = [] then Response 404 (ErrorJson ?m) else Response 200 (ArrayJson ?q))"
    by (simp only: serve_races_circuits_season [OF i] rows_callback_if)
  show "\<exists>rows msg.
         (\<forall>r. r \<in> set rows \<longleftrightarrow>
              r \<in> set (races db)
            \<and> (\<exists>c \<in> set (circuits db). sql_eq (col c ''circuitId'') (col r ''circuitId'')
                  \<and> sql_eq (col c ''circuitRef'') (SText ref))
            \<and> in_interval lo hi (col r ''year''))
       \<and> serve db (RacesCircuitsSeason ref start end)
           = (if rows = [] then Response 404 (ErrorJson msg) else Response 200 (ArrayJson rows))"
    by (intro exI [of _ ?q] exI [of _ ?m] conjI A B)
  let ?q' = "q_results_drivers_seasons db ref start end"
  let ?m' = "''No results for '' @ apostrophe @ ref @ apostrophe
              @ '' between '' @ start @ '' and '' @ end @ ''.''"
  have A': "\<forall>obj. obj \<in> set ?q' \<longleftrightarrow>
            (\<exists>r d ra c. r \<in> set (results db)
               \<and> d \<in> set (drivers db) \<and> sql_eq (col d ''driverId'') (col r ''driverId'')
               \<and> ra \<in> set (races db) \<and> sql_eq (col ra ''raceId'') (col r ''raceId'')
               \<and> c \<in> set (constructors db)
               \<and> sql_eq (col c ''constructorId'') (col r ''constructorId'')
               \<and> sql_eq (col d ''driverRef'') (SText ref)
               \<and> in_interval lo hi (col ra ''year'')
               \<and> obj = driver_result_row (r, d, ra, c))"
    using a set_q_results_drivers_seasons [of start lo "end" hi _ db ref] by blast
  have B': "serve db (ResultsDriversSeasons ref start end)
           = (if ?q' = [] then Response 404 (ErrorJson ?m') else Response 200 (ArrayJson ?q'))"
    by (simp only: serve_results_drivers_seasons [OF i] rows_callback_if)
  show "\<exists>rows msg.
         (\<forall>obj. obj \<in> set rows \<longleftrightarrow>
            (\<exists>r d ra c. r \<in> set (results db)
               \<and> d \<in> set (drivers db) \<and> sql_eq (col d ''driverId'') (col r ''driverId'')
               \<and> ra \<in> set (races db) \<and> sql_eq (col ra ''raceId'') (col r ''raceId'')
               \<and> c \<in> set (constructors db)
               \<and> sql_eq (col c ''constructorId'') (col r ''constructorId'')
               \<and> sql_eq (col d ''driverRef'') (SText ref)
               \<and> in_interval lo hi (col ra ''year'')
               \<and> obj = driver_result_row (r, d, ra, c)))
       \<and> serve db (ResultsDriversSeasons ref start end)
           = (if rows = [] then Response 404 (ErrorJson msg) else Response 200 (ArrayJson rows))"
    by (intro exI [of _ ?q'] exI [of _ ?m'] conjI A' B')
qed

theorem season_range_operations_witness:
  "js_less (Number ''2022'') (Number ''2035'')
   \<and> handler (ResultsDriversSeasons ''sainz'' ''2035'' ''2022'')
       = Done (Response 400 (ErrorJson ''end year must be >= start year.''))
   \<and> \<not> isInt ''20x''
   \<and> handler (RacesCircuitsSeason ''monza'' ''2022'' ''20x'')
       = Done (Response 400 (ErrorJson ''start and end must be integers.''))
   \<and> isInt ''2020.0'' \<and> isInt ''2022'' \<and> \<not> js_less (Number ''2022'') (Number ''2020.0'')
   \<and> number_of (numeric_affinity ''2020.0'') = Some 2020
   \<and> number_of (numeric_affinity ''2022'') = Some 2022
   \<and> serve example_db (RacesCircuitsSeason ''monza'' ''2020.0'' ''2022'')
       = Response 200 (ArrayJson [race 1038 2020 8 ''Italian'' 14, race 1077 2022 4 ''Emilia'' 14,
           race 1089 2022 16 ''Italian'' 14])
   \<and> map (\<lambda>obj. (col obj ''year'', col obj ''round''))
        (q_results_drivers_seasons example_db ''hamilton'' ''2020.0'' ''2022'')
       = [(SInt 2020, SInt 8), (SInt 2022, SInt 16)]
   \<and> serve example_db (ResultsDriversSeasons ''hamilton'' ''2020.0'' ''2022'')
       = Response 200 (ArrayJson (q_results_drivers_seasons example_db ''hamilton'' ''2020.0'' ''2022''))"
proof -
  have h1: "js_less (Number ''2022'') (Number ''2035'')" by code_simp
  have h2: "\<not> isInt ''20x''" by code_simp
  have h4: "isInt ''2035''" by code_simp
  have h3: "isInt ''2020.0'' \<and> isInt ''2022'' \<and> \<not> js_less (Number ''2022'') (Number ''2020.0'')
     \<and> number_of (numeric_affinity ''2020.0'') = Some 2020
     \<and> number_of (numeric_affinity ''2022'') = Some 2022"
    by code_simp
  have e1: "serve example_db (RacesCircuitsSeason ''monza'' ''2020.0'' ''2022'')
       = Response 200 (ArrayJson [race 1038 2020 8 ''Italian'' 14, race 1077 2022 4 ''Emilia'' 14,
           race 1089 2022 16 ''Italian'' 14])"
    by code_simp
  have e2: "map (\<lambda>obj. (col obj ''year'', col obj ''round''))
        (q_results_drivers_seasons example_db ''hamilton'' ''2020.0'' ''2022'')
       = [(SInt 2020, SInt 8), (SInt 2022, SInt 16)]"
    by code_simp
  have e3: "serve example_db (ResultsDriversSeasons ''hamilton'' ''2020.0'' ''2022'')
       = Response 200 (ArrayJson (q_results_drivers_seasons example_db ''hamilton'' ''2020.0'' ''2022''))"
    by code_simp
  from season_range_operations [of "''2022''" "''2035''" "''sainz''" 0 0 example_db] h1
  have r1: "\<exists>msg. handler (ResultsDriversSeasons ''sainz'' ''2035'' ''2022'')
       = Done (Response 400 (ErrorJson msg))"
    by blast
  from season_range_operations [of "''20x''" "''2022''" "''monza''" 0 0 example_db] h2
  have r2: "handler (RacesCircuitsSeason ''monza'' ''2022'' ''20x'')
       = Done (badReq ''start and end must be integers.'')"
    by blast
  from season_range_operations [of "''2022''" "''2020.0''" "''monza''" 2020 2022 example_db] h3
  have r3: "\<exists>rows msg. serve example_db (RacesCircuitsSeason ''monza'' ''2020.0'' ''2022'')
       = (if rows = [] then Response 404 (ErrorJson msg) else Response 200 (ArrayJson rows))"
    by blast
  have r1': "handler (ResultsDriversSeasons ''sainz'' ''2035'' ''2022'')
       = Done (Response 400 (ErrorJson ''end year must be >= start year.''))"
    using r1 h1 h3 h4 by (simp add: api_results_drivers_seasons_def badReq_def)
  from h1 h2 h3 e1 e2 e3 r1' r2 r3 show ?thesis
    by (simp add: badReq_def)
qed

text \<open>
  The two readings that the statement above leaves out fail on the code. The bounds
  \<open>2020\<close> and \<open>0x7E4\<close> both pass the integer check and are equal as numbers, but the
  store keeps \<open>0x7E4\<close> as text, which is above every number: the races of 2022 are
  returned. The bounds \<open>9007199254740993\<close> and \<open>9007199254740992\<close> are in the wrong
  order as integers, but equal as doubles: the request is not refused, the statement is
  submitted.
\<close>

theorem season_range_counterexample:
  "isInt ''2020'' \<and> isInt ''0x7E4''
   \<and> Number ''2020'' = Fin 2020 \<and> Number ''0x7E4'' = Fin 2020
   \<and> serve example_db (RacesCircuitsSeason ''monza'' ''2020'' ''0x7E4'')
       = Response 200 (ArrayJson [race 1038 2020 8 ''Italian'' 14, race 1077 2022 4 ''Emilia'' 14,
           race 1089 2022 16 ''Italian'' 14])
   \<and> col (race 1077 2022 4 ''Emilia'' 14) ''year'' = SInt 2022
   \<and> numeric_affinity ''9007199254740993'' = SInt 9007199254740993
   \<and> numeric_affinity ''9007199254740992'' = SInt 9007199254740992
   \<and> (9007199254740992 :: int) < 9007199254740993
   \<and> statement_of (handler (RacesCircuitsSeason ''monza'' ''9007199254740993'' ''9007199254740992''))
       = Some (sql_api_races_circuits_season, [''monza'', ''9007199254740993'', ''9007199254740992''])
   \<and> status (serve example_db (RacesCircuitsSeason ''monza'' ''9007199254740993'' ''9007199254740992''))
       = 404"
  by code_simp

subsection \<open>Surname search\<close>


lemma like_percent: "like ''%'' s"
  by (induction s) simp_all

lemma of_char_lower:
  "(of_char (ascii_lower c) :: int) = (if 65 \<le> (of_char c :: int) \<and> (of_char c :: int) \<le> 90 then of_char c + 32 else of_char c)"
  by (simp add: ascii_lower_def)

lemma ascii_lower_idem: "ascii_lower (ascii_lower c) = ascii_lower c"
proof -
  have "(of_char (ascii_lower (ascii_lower c)) :: int) = of_char (ascii_lower c)"
    by (simp only: of_char_lower [of "ascii_lower c"]) (simp add: of_char_lower)
  then show ?thesis by (simp only: of_char_eq_iff)
qed

lemma char_code_neq:
  assumes "c \<noteq> d"
  shows "(of_char c :: int) \<noteq> of_char d"
  using assms by simp

lemma ascii_lower_not_wildcard:
  assumes "c \<noteq> CHR ''%''" and "c \<noteq> CHR ''_''"
  shows "ascii_lower c \<noteq> CHR ''%'' \<and> ascii_lower c \<noteq> CHR ''_''"
proof -
  have p: "(of_char (CHR ''%'') :: int) = 37" and u: "(of_char (CHR ''_'') :: int) = 95"
    by simp_all
  have "(of_char c :: int) \<noteq> 37"
    using char_code_neq [OF assms(1), unfolded p] .
  moreover have "(of_char c :: int) \<noteq> 95"
    using char_code_neq [OF assms(2), unfolded u] .
  ultimately have "(of_char (ascii_lower c) :: int) \<noteq> 37 \<and> (of_char (ascii_lower c) :: int) \<noteq> 95"
    by (simp add: of_char_lower)
  then show ?thesis
    using p u by metis
qed

lemma ascii_lower_wildcard: "ascii_lower (CHR ''%'') = CHR ''%''"
  by (simp add: ascii_lower_def)

lemma lower_no_wildcard: "\<not> has_wildcard p \<Longrightarrow> \<not> has_wildcard (lower p)"
proof (induction p)
  case Nil
  then show ?case by (simp add: has_wildcard_def lower_def)
next
  case (Cons a p)
  then have a: "a \<noteq> CHR ''%''" "a \<noteq> CHR ''_''" and p: "\<not> has_wildcard p"
    by (auto simp: has_wildcard_def)
  from ascii_lower_not_wildcard [OF a]
  have "CHR ''%'' \<noteq> ascii_lower a" "CHR ''_'' \<noteq> ascii_lower a"
    by (simp_all only: not_sym not_False_eq_True)
  with Cons.IH [OF p] show ?case
    by (simp add: has_wildcard_def lower_def)
qed

lemma like_literal_prefix:
  assumes "\<not> has_wildcard p"
  shows "like (p @ ''%'') s \<longleftrightarrow> prefix (map ascii_lower p) (map ascii_lower s)"
  using assms
proof (induction p arbitrary: s)
  case Nil
  show ?case using like_percent [of s] by (simp del: like.simps)
next
  case (Cons a p)
  then have a: "a \<noteq> CHR ''%''" "a \<noteq> CHR ''_''" and p: "\<not> has_wildcard p"
    by (auto simp: has_wildcard_def)
  show ?case
  proof (cases s)
    case Nil
    then show ?thesis using a by simp
  next
    case (Cons c t)
    then show ?thesis using a Cons.IH [OF p, of t] by simp
  qed
qed

lemma surname_like_prefix:
  assumes "\<not> has_wildcard substring"
  shows "surname_like substring (SText surname) \<longleftrightarrow> prefix (lower substring) (lower surname)"
  using like_literal_prefix [OF lower_no_wildcard [OF assms], of "lower surname"]
  by (simp add: surname_like_def lower_def ascii_lower_idem comp_def)

lemma surname_search_plain:
  assumes "\<not> has_wildcard substring"
  shows "d \<in> set (q_drivers_search db substring) \<longleftrightarrow>
           d \<in> set (drivers db)
         \<and> (\<exists>surname. col d ''surname'' = SText surname \<and> prefix (lower substring) (lower surname))"
proof -
  have "q_drivers_search db substring
      = sort_key (\<lambda>d. (sql_rank (col d ''surname''), sql_rank (col d ''forename'')))
          (filter (\<lambda>d. surname_like substring (col d ''surname'')) (drivers db))"
    unfolding q_drivers_search_def by (simp only: filter_comprehension)
  then have "d \<in> set (q_drivers_search db substring) \<longleftrightarrow>
      d \<in> set (drivers db) \<and> surname_like substring (col d ''surname'')"
    by simp
  also have "surname_like substring (col d ''surname'') \<longleftrightarrow>
      (\<exists>surname. col d ''surname'' = SText surname \<and> prefix (lower substring) (lower surname))"
    by (cases "col d ''surname''") (simp_all add: surname_like_prefix [OF assms], simp_all add: surname_like_def)
  finally show ?thesis .
qed

lemma surname_search_empty:
  "d \<in> set (q_drivers_search db []) \<longleftrightarrow>
     d \<in> set (drivers db) \<and> (\<exists>surname. col d ''surname'' = SText surname)"
  using surname_search_plain [of "[]" d db] by (simp add: has_wildcard_def lower_def)

lemma surname_search_sorted:
  "sorted (map (\<lambda>d. (sql_rank (col d ''surname''), sql_rank (col d ''forename'')))
     (q_drivers_search db substring))"
  by (simp add: q_drivers_search_def)

lemma lower_idem: "lower (lower s) = lower s"
  by (simp add: lower_def ascii_lower_idem comp_def)

lemma surname_like_lower: "surname_like (lower substring) v = surname_like substring v"
  by (cases v) (simp_all add: surname_like_def lower_idem)

lemma surname_search_case_insensitive:
  "q_drivers_search db (lower substring) = q_drivers_search db substring"
  by (simp only: q_drivers_search_def surname_like_lower)

text \<open>
  Claim C5, at the request \<open>/api/drivers/search/%25am\<close> (substring \<open>%am\<close>) on a dataset
  with a driver named Hamilton: the operation returns that driver, whose surname does
  not begin with \<open>%am\<close>. The substring is used as a \<open>LIKE\<close> pattern, so \<open>%\<close> and \<open>_\<close> in
  it are wildcards. For a substring without them the match is the case-insensitive
  prefix match (\<open>surname_search_plain\<close>), the statement run with an empty substring
  matches every driver with a surname (\<open>surname_search_empty\<close>; the router never hands
  the handler an empty substring), and the result is ordered by surname, then forename
  (\<open>surname_search_sorted\<close>).
\<close>

theorem surname_search_wildcard:
  "serve example_db (DriversSearch ''%am'')
     = Response 200 (ArrayJson [driver 1 ''hamilton'' ''HAM'' ''Lewis'' ''Hamilton''])
   \<and> col (driver 1 ''hamilton'' ''HAM'' ''Lewis'' ''Hamilton'') ''surname'' = SText ''Hamilton''
   \<and> \<not> prefix (lower ''%am'') (lower ''Hamilton'')"
  by code_simp

end
